theory Spec2Isabelle
  imports Main
begin

text \<open>
  A model of the lock store (\<open>internal/lock/lockfile.go\<close>) and of the GitHub plugin source
  (\<open>internal/plugin/github.go\<close>) of devbox. Go functions become HOL functions of the same
  name; what a function changes (the lock file in memory, the file system, the world
  outside the program) is passed in and returned; an \<open>error\<close> result is the left summand of
  a sum; what the two files call and do not define is a field of an environment record.
\<close>

section \<open>Go strings\<close>

text \<open>
  A Go string is a sequence of bytes: \<open>len\<close> counts bytes and \<open>s[:k]\<close> slices bytes.
  \<open>string\<close> (a list of 8-bit characters) is that sequence.
\<close>

text \<open>\<open>strings.HasPrefix(s, prefix)\<close>.\<close>

fun HasPrefix :: "string \<Rightarrow> string \<Rightarrow> bool" where
  "HasPrefix s [] = True"
| "HasPrefix [] (p # ps) = False"
| "HasPrefix (c # cs) (p # ps) = (c = p \<and> HasPrefix cs ps)"

text \<open>\<open>strings.Contains(s, substr)\<close>: \<open>substr\<close> starts at some position of \<open>s\<close>.\<close>

fun Contains :: "string \<Rightarrow> string \<Rightarrow> bool" where
  "Contains [] sub = HasPrefix [] sub"
| "Contains (c # cs) sub = (HasPrefix (c # cs) sub \<or> Contains cs sub)"

text \<open>
  \<open>strings.Cut(s, sep)\<close>: the text before and after the first occurrence of \<open>sep\<close>,
  \<open>None\<close> when \<open>sep\<close> does not occur.
\<close>

fun Cut :: "string \<Rightarrow> string \<Rightarrow> (string \<times> string) option" where
  "Cut [] sep = (if HasPrefix [] sep then Some ([], []) else None)"
| "Cut (c # cs) sep =
     (if HasPrefix (c # cs) sep then Some ([], drop (length sep) (c # cs))
      else (case Cut cs sep of
              None \<Rightarrow> None
            | Some (a, b) \<Rightarrow> Some (c # a, b)))"

text \<open>
  \<open>strings.SplitN(s, sep, n)\<close> for a non-empty \<open>sep\<close> and \<open>n \<ge> 0\<close>: at most \<open>n\<close>
  substrings, the last one the unsplit remainder; \<open>n = 0\<close> gives no substring.
\<close>

fun SplitN :: "string \<Rightarrow> string \<Rightarrow> nat \<Rightarrow> string list" where
  "SplitN s sep 0 = []"
| "SplitN s sep (Suc 0) = [s]"
| "SplitN s sep (Suc (Suc n)) =
     (case Cut s sep of
        None \<Rightarrow> [s]
      | Some (a, b) \<Rightarrow> a # SplitN b sep (Suc n))"

text \<open>\<open>strings.Repeat(s, count)\<close>.\<close>

definition Repeat :: "string \<Rightarrow> nat \<Rightarrow> string" where
  "Repeat s count = concat (replicate count s)"

section \<open>Plugin content source: \<open>internal/plugin/github.go\<close>\<close>

subsection \<open>HTTP requests\<close>

text \<open>
  Of \<open>http.Request\<close> the code uses the URL and the header, a map from a header name to
  the list of its values. \<open>Header.Get\<close> is the first value or the empty string,
  \<open>Header.Add\<close> appends a value.
\<close>

record Request =
  URL :: string
  Header :: "string \<rightharpoonup> string list"

definition Header_Get :: "(string \<rightharpoonup> string list) \<Rightarrow> string \<Rightarrow> string" where
  "Header_Get h k = (case h k of None \<Rightarrow> [] | Some [] \<Rightarrow> [] | Some (v # vs) \<Rightarrow> v)"

definition Header_Add ::
  "(string \<rightharpoonup> string list) \<Rightarrow> string \<Rightarrow> string \<Rightarrow> (string \<rightharpoonup> string list)" where
  "Header_Add h k v = h(k \<mapsto> (case h k of None \<Rightarrow> [v] | Some vs \<Rightarrow> vs @ [v]))"

subsection \<open>\<open>getRedactedAuthHeader\<close>\<close>

definition getRedactedAuthHeader :: "Request \<Rightarrow> string" where
  "getRedactedAuthHeader req =
     (let authHeader = Header_Get (Header req) ''Authorization'';
          parts = SplitN authHeader '' '' 2
      in if length authHeader < 10 \<or> length parts < 2
         then Repeat ''*'' (length authHeader)
         else
           let authType = parts ! 0; token = parts ! 1
           in if length token < 10
              then authType @ '' '' @ Repeat ''*'' (length token)
              else authType @ '' '' @ take 4 token @ Repeat ''*'' (length token - 4))"

text \<open>A request that carries \<open>v\<close> as its only \<open>Authorization\<close> header.\<close>

definition authRequest :: "string \<Rightarrow> string \<Rightarrow> Request" where
  "authRequest u v = \<lparr>URL = u, Header = Header_Add Map.empty ''Authorization'' v\<rparr>"

subsection \<open>Flake references\<close>

text \<open>
  \<open>flake.Ref\<close> is declared in \<open>nix/flake\<close>. The code in scope reads its owner, repository,
  git ref, git rev and directory, and turns it into a string through \<open>String()\<close>, which
  the environments below take as a parameter.
\<close>

record flake_Ref =
  Owner :: string
  Repo :: string
  Ref :: string
  Rev :: string
  Dir :: string

section \<open>Lock store: \<open>internal/lock/lockfile.go\<close>\<close>

subsection \<open>Data\<close>

text \<open>
  A Go \<open>error\<close>. \<open>fs.ErrNotExist\<close> is the one error the code tells apart (with
  \<open>errors.Is\<close>); \<open>PluginStatus key url status authInfo\<close> is the user error that
  \<open>FileContent\<close> formats from these four arguments; every other error is a message.
\<close>

datatype error = ErrNotExist | Failure string | PluginStatus string string int string

text \<open>
  \<open>Package\<close> and \<open>SystemInfo\<close> with the fields that \<open>lockfile.go\<close> reads and writes. An
  \<open>Output\<close> is a name and a path. The maps hold pointers in Go; the model holds the
  records themselves, so every entry of a map is a non-nil pointer.
\<close>

type_synonym Output = "string \<times> string"

record SystemInfo =
  Outputs :: "Output list"
  outputIsFromStorePath :: bool

record Package =
  Resolved :: string
  Source :: string
  AllowInsecure :: bool
  Systems :: "string \<rightharpoonup> SystemInfo"

record File =
  LockFileVersion :: string
  Packages :: "string \<rightharpoonup> Package"

text \<open>
  The methods of the \<open>devboxProject\<close> interface that \<open>lockfile.go\<close> calls.
\<close>

record devboxProject =
  ProjectDir :: string
  project_Stdenv :: flake_Ref
  AllPackageNamesIncludingRemovedTriggerPackages :: "string list"

text \<open>
  What \<open>lockfile.go\<close> calls and does not define, as parameters: the project, the
  classification helpers (\<open>pkgtype.IsRunX\<close>, \<open>searcher.ParseVersionedPackage\<close>,
  \<open>pkgtype.IsFlake\<close>), the flake functions (\<open>Ref.String\<close>, \<open>Installable.String\<close>,
  \<open>flake.ParseRef\<close>), the constant \<open>nixpkgSource\<close>, \<open>cachehash.JSON\<close>,
  \<open>ensurePackagesHaveOutputs\<close>, \<open>filepath.Join\<close>, and \<open>cuecfg.ParseFile\<close> and
  \<open>cuecfg.WriteFile\<close> over a file system of type \<open>'d\<close>.

  \<open>FetchResolvedPackage\<close> is the external resolver. It reaches the network and may answer
  differently each time it is asked, so it takes the list of the specs it was asked
  before, oldest first. It returns a package, \<open>nil\<close> (\<open>None\<close>) or an error, and leaves the
  lock file in memory to its caller.
\<close>

record 'd env =
  project :: devboxProject
  IsRunX :: "string \<Rightarrow> bool"
  ParseVersionedPackage :: "string \<Rightarrow> string \<times> string \<times> bool"
  IsFlake :: "string \<Rightarrow> bool"
  FetchResolvedPackage :: "string list \<Rightarrow> string \<Rightarrow> error + Package option"
  Ref_String :: "flake_Ref \<Rightarrow> string"
  Installable_String :: "flake_Ref \<Rightarrow> string \<Rightarrow> string"
  ParseRef :: "string \<Rightarrow> error + flake_Ref"
  nixpkgSource :: string
  cachehash_JSON :: "File \<Rightarrow> error + string"
  ensurePackagesHaveOutputs :: "(string \<rightharpoonup> Package) \<Rightarrow> (string \<rightharpoonup> Package)"
  filepath_Join :: "string \<Rightarrow> string \<Rightarrow> string"
  ParseFile :: "'d \<Rightarrow> string \<Rightarrow> File \<Rightarrow> error + File"
  WriteFile :: "'d \<Rightarrow> string \<Rightarrow> File \<Rightarrow> error option \<times> 'd"

text \<open>
  The state that \<open>Resolve\<close> changes: the lock file in memory, and the calls made to the
  external resolver so far (the specs it was asked, oldest first).
\<close>

record store =
  lockfile :: File
  calls :: "string list"

definition lockFileVersion :: string where
  "lockFileVersion = ''1''"

text \<open>\<open>&Package{}\<close>: every field at its zero value.\<close>

definition zeroPackage :: Package where
  "zeroPackage = \<lparr>Resolved = [], Source = [], AllowInsecure = False, Systems = Map.empty\<rparr>"

subsection \<open>\<open>IsLegacyPackage\<close>\<close>

definition IsLegacyPackage :: "'d env \<Rightarrow> string \<Rightarrow> bool" where
  "IsLegacyPackage e pkg =
     (case ParseVersionedPackage e pkg of
        (_, _, versioned) \<Rightarrow>
          \<not> versioned \<and> \<not> Contains pkg '':'' \<and> \<not> HasPrefix pkg ''/'')"

subsection \<open>\<open>Resolve\<close> and \<open>Stdenv\<close>\<close>

text \<open>
  The entry that \<open>Resolve\<close> returns at once: \<open>hasEntry && entry.Resolved != ""\<close>.
\<close>

definition resolvedEntry :: "File \<Rightarrow> string \<Rightarrow> Package option" where
  "resolvedEntry f pkg =
     (case Packages f pkg of
        None \<Rightarrow> None
      | Some entry \<Rightarrow> if Resolved entry \<noteq> [] then Some entry else None)"

text \<open>\<open>f.Packages[pkg] = locked; return f.Packages[pkg], nil\<close>.\<close>

definition setEntry :: "store \<Rightarrow> string \<Rightarrow> Package \<Rightarrow> (error + Package) \<times> store" where
  "setEntry s pkg locked =
     (Inr locked, s\<lparr>lockfile := (lockfile s)\<lparr>Packages := (Packages (lockfile s))(pkg \<mapsto> locked)\<rparr>\<rparr>)"

text \<open>
  \<open>Resolve\<close> calls \<open>Stdenv\<close> for a legacy package and \<open>Stdenv\<close> calls \<open>Resolve\<close> for the
  project's base reference. Nothing in the code bounds this recursion, so the model
  counts the depth of the calls: with \<open>n\<close> nested calls allowed, \<open>None\<close> says that the
  call needs more than \<open>n\<close>, and a call that is \<open>None\<close> for every \<open>n\<close> never returns.
\<close>

fun Resolve :: "nat \<Rightarrow> 'd env \<Rightarrow> store \<Rightarrow> string \<Rightarrow> ((error + Package) \<times> store) option"
  and Stdenv :: "nat \<Rightarrow> 'd env \<Rightarrow> store \<Rightarrow> (flake_Ref \<times> store) option"
where
  "Resolve 0 e s pkg = None"
| "Resolve (Suc n) e s pkg =
     (case resolvedEntry (lockfile s) pkg of
        Some entry \<Rightarrow> Some (Inr entry, s)
      | None \<Rightarrow>
          (case ParseVersionedPackage e pkg of
             (_, _, versioned) \<Rightarrow>
               if IsRunX e pkg \<or> versioned \<or> IsFlake e pkg then
                 (case FetchResolvedPackage e (calls s) pkg of
                    Inl err \<Rightarrow> Some (Inl err, s\<lparr>calls := calls s @ [pkg]\<rparr>)
                  | Inr resolved \<Rightarrow>
                      Some (setEntry (s\<lparr>calls := calls s @ [pkg]\<rparr>) pkg
                              (case resolved of None \<Rightarrow> zeroPackage | Some r \<Rightarrow> r)))
               else if IsLegacyPackage e pkg then
                 (case Stdenv n e s of
                    None \<Rightarrow> None
                  | Some (r, s1) \<Rightarrow>
                      Some (setEntry s1 pkg
                              \<lparr>Resolved = Installable_String e r pkg, Source = nixpkgSource e,
                               AllowInsecure = False, Systems = Map.empty\<rparr>))
               else Some (setEntry s pkg zeroPackage)))"
| "Stdenv 0 e s = None"
| "Stdenv (Suc n) e s =
     (let unlocked = project_Stdenv (project e) in
      case Resolve n e s (Ref_String e unlocked) of
        None \<Rightarrow> None
      | Some (Inl err, s1) \<Rightarrow> Some (unlocked, s1)
      | Some (Inr pkg, s1) \<Rightarrow>
          (case ParseRef e (Resolved pkg) of
             Inl err \<Rightarrow> Some (unlocked, s1)
           | Inr r \<Rightarrow> Some (r, s1)))"

subsection \<open>\<open>GetFile\<close>, \<open>isDirty\<close> and \<open>Save\<close>\<close>

definition lockFilePath :: "'d env \<Rightarrow> string \<Rightarrow> string" where
  "lockFilePath e projectDir = filepath_Join e projectDir ''devbox.lock''"

definition GetFile :: "'d env \<Rightarrow> 'd \<Rightarrow> error + File" where
  "GetFile e disk =
     (let lockFile = \<lparr>LockFileVersion = lockFileVersion, Packages = Map.empty\<rparr> in
      case ParseFile e disk (lockFilePath e (ProjectDir (project e))) lockFile of
        Inl err \<Rightarrow> if err = ErrNotExist then Inr lockFile else Inl err
      | Inr parsed \<Rightarrow>
          Inr (parsed\<lparr>Packages := ensurePackagesHaveOutputs e (Packages parsed)\<rparr>))"

definition isDirty :: "'d env \<Rightarrow> File \<Rightarrow> 'd \<Rightarrow> error + bool" where
  "isDirty e f disk =
     (case cachehash_JSON e f of
        Inl err \<Rightarrow> Inl err
      | Inr currentHash \<Rightarrow>
          (case GetFile e disk of
             Inl err \<Rightarrow> Inl err
           | Inr fileSystemLockFile \<Rightarrow>
               (case cachehash_JSON e fileSystemLockFile of
                  Inl err \<Rightarrow> Inl err
                | Inr filesystemHash \<Rightarrow> Inr (currentHash \<noteq> filesystemHash))))"

text \<open>
  The loop of \<open>Save\<close> before the write: in every package, every \<open>SystemInfo\<close> whose
  outputs come from the legacy store path loses its outputs.
\<close>

definition clearStorePathOutputs :: "(string \<rightharpoonup> Package) \<Rightarrow> (string \<rightharpoonup> Package)" where
  "clearStorePathOutputs pkgs =
     (\<lambda>pkgName.
        map_option
          (\<lambda>pkg. pkg\<lparr>Systems :=
             (\<lambda>sys.
                map_option
                  (\<lambda>sysInfo.
                     if outputIsFromStorePath sysInfo then sysInfo\<lparr>Outputs := []\<rparr>
                     else sysInfo)
                  (Systems pkg sys))\<rparr>)
          (pkgs pkgName))"

text \<open>
  \<open>Save\<close> returns its error (\<open>None\<close> for \<open>nil\<close>), the lock file in memory and the file
  system. The deferred \<open>ensurePackagesHaveOutputs\<close> runs after the write.
\<close>

definition Save :: "'d env \<Rightarrow> File \<Rightarrow> 'd \<Rightarrow> error option \<times> File \<times> 'd" where
  "Save e f disk =
     (case isDirty e f disk of
        Inl err \<Rightarrow> (Some err, f, disk)
      | Inr dirty \<Rightarrow>
          if \<not> dirty then (None, f, disk)
          else
            let f1 = f\<lparr>Packages := clearStorePathOutputs (Packages f)\<rparr> in
            case WriteFile e disk (lockFilePath e (ProjectDir (project e))) f1 of
              (err, disk') \<Rightarrow>
                (err, f1\<lparr>Packages := ensurePackagesHaveOutputs e (Packages f1)\<rparr>, disk'))"

subsection \<open>\<open>Tidy\<close>\<close>

text \<open>
  \<open>maps.DeleteFunc\<close> deletes the keys for which the function is true;
  \<open>slices.Contains(keep, key)\<close> is membership in the list, \<open>key \<in> set keep\<close>.
\<close>

definition Tidy :: "'d env \<Rightarrow> File \<Rightarrow> File" where
  "Tidy e f =
     (let keep = AllPackageNamesIncludingRemovedTriggerPackages (project e);
          keep = keep @ [Ref_String e (project_Stdenv (project e))]
      in f\<lparr>Packages :=
           (\<lambda>key. if \<not> key \<in> set keep then None else Packages f key)\<rparr>)"

section \<open>Plugin content source: \<open>FileContent\<close>\<close>

record githubPlugin =
  plugin_ref :: flake_Ref
  plugin_name :: string

text \<open>
  Of an \<open>http.Response\<close> the code reads the status code and the body; \<open>io.ReadAll\<close> of
  the body may fail.
\<close>

record Response =
  StatusCode :: int
  Body :: "error + string"

text \<open>
  What \<open>github.go\<close> calls and does not define, as parameters, over a state \<open>'w\<close> of the
  world outside the program (the network, the cache directory, the log):
  \<open>os.Getenv\<close>, \<open>url.JoinPath\<close>, \<open>time.ParseDuration\<close> (a duration is a number of
  nanoseconds), \<open>http.NewRequest\<close>, \<open>http.Client.Do\<close>, \<open>slog.Debug\<close>, \<open>Ref.String\<close>, and
  \<open>GetOrSet\<close> of the cache \<open>githubCache\<close>, which takes the key and the function that
  computes the value and its time to live.
\<close>

record 'w plugin_env =
  Getenv :: "string \<Rightarrow> string"
  JoinPath :: "string \<Rightarrow> string list \<Rightarrow> error + string"
  ParseDuration :: "string \<Rightarrow> error + int"
  NewRequest :: "string \<Rightarrow> string \<Rightarrow> error + Request"
  client_Do :: "'w \<Rightarrow> Request \<Rightarrow> (error + Response) \<times> 'w"
  slog_Debug :: "'w \<Rightarrow> string \<Rightarrow> string \<Rightarrow> string \<Rightarrow> 'w"
  ref_String :: "flake_Ref \<Rightarrow> string"
  GetOrSet ::
    "'w \<Rightarrow> string \<Rightarrow> ('w \<Rightarrow> (error + string \<times> int) \<times> 'w) \<Rightarrow> (error + string) \<times> 'w"

text \<open>\<open>time.Hour\<close>, in nanoseconds.\<close>

definition Hour :: int where
  "Hour = 3600000000000"

text \<open>\<open>cmp.Or\<close> on strings: the first argument that is not empty, or the empty string.\<close>

fun cmp_Or :: "string list \<Rightarrow> string" where
  "cmp_Or [] = []"
| "cmp_Or (v # vs) = (if v \<noteq> [] then v else cmp_Or vs)"

definition LockfileKey :: "'w plugin_env \<Rightarrow> githubPlugin \<Rightarrow> string" where
  "LockfileKey e p = ref_String e (plugin_ref p)"

definition url :: "'w plugin_env \<Rightarrow> githubPlugin \<Rightarrow> string \<Rightarrow> error + string" where
  "url e p subpath =
     JoinPath e ''https://raw.githubusercontent.com/''
       [Owner (plugin_ref p), Repo (plugin_ref p),
        cmp_Or [Rev (plugin_ref p), Ref (plugin_ref p), ''master''],
        Dir (plugin_ref p), subpath]"

definition request ::
  "'w plugin_env \<Rightarrow> githubPlugin \<Rightarrow> string \<Rightarrow> 'w \<Rightarrow> (error + Request) \<times> 'w" where
  "request e p contentURL w =
     (case NewRequest e ''GET'' contentURL of
        Inl err \<Rightarrow> (Inl err, w)
      | Inr req \<Rightarrow>
          let ghToken = Getenv e ''GITHUB_TOKEN'' in
          if ghToken \<noteq> [] then
            let authValue = ''token '' @ ghToken;
                req1 = req\<lparr>Header := Header_Add (Header req) ''Authorization'' authValue\<rparr>
            in (Inr req1,
                slog_Debug e w ''GITHUB_TOKEN env var found, adding to request's auth header''
                  ''headerValue'' (getRedactedAuthHeader req1))
          else (Inr req, w))"

text \<open>
  The function that \<open>FileContent\<close> passes to \<open>GetOrSet\<close>: it sends the request and
  returns the body with the time to live \<open>ttl\<close>.
\<close>

definition fetchContent ::
  "'w plugin_env \<Rightarrow> githubPlugin \<Rightarrow> string \<Rightarrow> int \<Rightarrow> 'w \<Rightarrow> (error + string \<times> int) \<times> 'w" where
  "fetchContent e p contentURL ttl w =
     (case request e p contentURL w of
        (Inl err, w1) \<Rightarrow> (Inl err, w1)
      | (Inr req, w1) \<Rightarrow>
          (case client_Do e w1 req of
             (Inl err, w2) \<Rightarrow> (Inl err, w2)
           | (Inr res, w2) \<Rightarrow>
               if StatusCode res \<noteq> 200 then
                 let authInfo =
                       (if Header_Get (Header req) ''Authorization'' \<noteq> []
                        then ''The auth header `'' @ getRedactedAuthHeader req @
                             ''` was sent with this request.''
                        else ''No auth header was sent with this request.'')
                 in (Inl (PluginStatus (LockfileKey e p) (URL req) (StatusCode res) authInfo), w2)
               else
                 (case Body res of
                    Inl err \<Rightarrow> (Inl err, w2)
                  | Inr body \<Rightarrow> (Inr (body, ttl), w2))))"

definition FileContent ::
  "'w plugin_env \<Rightarrow> githubPlugin \<Rightarrow> string \<Rightarrow> 'w \<Rightarrow> (error + string) \<times> 'w" where
  "FileContent e p subpath w =
     (case url e p subpath of
        Inl err \<Rightarrow> (Inl err, w)
      | Inr contentURL \<Rightarrow>
          let ttl = 24 * Hour;
              ttlStr = Getenv e ''DEVBOX_X_GITHUB_PLUGIN_CACHE_TTL''
          in case (if ttlStr \<noteq> [] then ParseDuration e ttlStr else Inr ttl) of
               Inl err \<Rightarrow> (Inl err, w)
             | Inr ttl \<Rightarrow> GetOrSet e w (contentURL @ ttlStr) (fetchContent e p contentURL ttl))"

section \<open>Predicates for the statements\<close>

text \<open>The third result of \<open>searcher.ParseVersionedPackage\<close>.\<close>

definition versioned :: "'d env \<Rightarrow> string \<Rightarrow> bool" where
  "versioned e pkg = (case ParseVersionedPackage e pkg of (_, _, v) \<Rightarrow> v)"

text \<open>The first test of the dispatch in \<open>Resolve\<close>: the spec goes to the external resolver.\<close>

definition external :: "'d env \<Rightarrow> string \<Rightarrow> bool" where
  "external e pkg = (IsRunX e pkg \<or> versioned e pkg \<or> IsFlake e pkg)"

text \<open>
  \<open>Resolve\<close> of the project's base reference does not reach the legacy branch: the
  string of the reference has a resolved entry, or goes to the external resolver, or is
  not a legacy package.
\<close>

definition stdenvSettles :: "'d env \<Rightarrow> store \<Rightarrow> bool" where
  "stdenvSettles e s =
     (let u = Ref_String e (project_Stdenv (project e))
      in resolvedEntry (lockfile s) u \<noteq> None \<or> external e u \<or> \<not> IsLegacyPackage e u)"

section \<open>An example project\<close>

text \<open>
  Modelled from the spec: \<open>pkgtype.IsRunX\<close>, \<open>searcher.ParseVersionedPackage\<close> and
  \<open>pkgtype.IsFlake\<close> are not under \<open>src/\<close>. Section 4.2 of the spec gives their tests: a
  RunX spec "carries a reserved registry-tool prefix" (here \<open>runx:\<close>); a versioned spec
  "matches name@version-style syntax (and is not RunX)" (a name, the last \<open>@\<close>, and a
  version that is not empty); a flake spec "parses successfully as a flake reference
  (scheme-qualified, e.g. path:, github:)" (here every spec with a scheme that is not
  empty before its first \<open>:\<close>; the prefix reserved for RunX is not a flake scheme).
\<close>

definition spec_IsRunX :: "string \<Rightarrow> bool" where
  "spec_IsRunX pkg = HasPrefix pkg ''runx:''"

definition spec_ParseVersionedPackage :: "string \<Rightarrow> string \<times> string \<times> bool" where
  "spec_ParseVersionedPackage pkg =
     (let version = rev (takeWhile (\<lambda>c. c \<noteq> CHR ''@'') (rev pkg))
      in if CHR ''@'' \<in> set pkg
         then (take (length pkg - length version - 1) pkg, version,
               version \<noteq> [] \<and> \<not> spec_IsRunX pkg)
         else (pkg, [], False))"

definition spec_IsFlake :: "string \<Rightarrow> bool" where
  "spec_IsFlake pkg =
     (\<not> spec_IsRunX pkg \<and>
      (case Cut pkg '':'' of None \<Rightarrow> False | Some (scheme, rest) \<Rightarrow> scheme \<noteq> []))"

text \<open>
  A project whose base reference is \<open>github:NixOS/nixpkgs/nixpkgs-unstable\<close>, with
  simple stand-ins for the other collaborators: a flake reference is written
  \<open>github:owner/repo/rev-or-ref\<close>, an installable adds \<open>#\<close> and the attribute path, the
  file system maps a path to the lock file stored there, and the hash of a lock file is
  its version followed by the resolved string of its entry \<open>hello\<close>. The external
  resolver \<open>fetch\<close> is left open.
\<close>

definition exampleProject :: devboxProject where
  "exampleProject =
     \<lparr>ProjectDir = ''/home/user/project'',
      project_Stdenv =
        \<lparr>Owner = ''NixOS'', Repo = ''nixpkgs'', Ref = ''nixpkgs-unstable'', Rev = [], Dir = []\<rparr>,
      AllPackageNamesIncludingRemovedTriggerPackages = [''foo@1'']\<rparr>"

definition exampleRefString :: "flake_Ref \<Rightarrow> string" where
  "exampleRefString r = ''github:'' @ Owner r @ ''/'' @ Repo r @ ''/'' @ cmp_Or [Rev r, Ref r]"

definition exampleParseRef :: "string \<Rightarrow> error + flake_Ref" where
  "exampleParseRef s =
     (if HasPrefix s ''github:NixOS/nixpkgs/''
      then Inr \<lparr>Owner = ''NixOS'', Repo = ''nixpkgs'', Ref = [], Rev = drop 21 s, Dir = []\<rparr>
      else Inl (Failure ''unsupported flake reference''))"

definition exampleEnv ::
  "(string list \<Rightarrow> string \<Rightarrow> error + Package option) \<Rightarrow> (string \<rightharpoonup> File) env" where
  "exampleEnv fetch =
     \<lparr>project = exampleProject,
      IsRunX = spec_IsRunX,
      ParseVersionedPackage = spec_ParseVersionedPackage,
      IsFlake = spec_IsFlake,
      FetchResolvedPackage = fetch,
      Ref_String = exampleRefString,
      Installable_String = (\<lambda>r attrPath. exampleRefString r @ ''#'' @ attrPath),
      ParseRef = exampleParseRef,
      nixpkgSource = ''nixpkg'',
      cachehash_JSON =
        (\<lambda>f. Inr (LockFileVersion f @
                   (case Packages f ''hello'' of None \<Rightarrow> [] | Some p \<Rightarrow> Resolved p))),
      ensurePackagesHaveOutputs = (\<lambda>pkgs. pkgs),
      filepath_Join = (\<lambda>dir name. dir @ ''/'' @ name),
      ParseFile = (\<lambda>disk path f. case disk path of None \<Rightarrow> Inl ErrNotExist | Some g \<Rightarrow> Inr g),
      WriteFile = (\<lambda>disk path f. (None, disk(path \<mapsto> f)))\<rparr>"

text \<open>An empty lock file in memory, and no call to the external resolver yet.\<close>

definition emptyStore :: store where
  "emptyStore = \<lparr>lockfile = \<lparr>LockFileVersion = ''1'', Packages = Map.empty\<rparr>, calls = []\<rparr>"

text \<open>
  Packages, resolvers and stores for the examples. \<open>exampleFetch\<close> locks the base
  reference at revision \<open>4f8a1c2\<close> and resolves \<open>go@1.22\<close>; \<open>failingFetch\<close> always fails;
  \<open>silentFetch\<close> always returns \<open>nil, nil\<close>; \<open>unparsableFetch\<close> returns a package whose
  resolved string is not a flake reference.
\<close>

definition lockedStdenvPackage :: Package where
  "lockedStdenvPackage =
     \<lparr>Resolved = ''github:NixOS/nixpkgs/4f8a1c2'', Source = [], AllowInsecure = False,
      Systems = Map.empty\<rparr>"

definition goPackage :: Package where
  "goPackage =
     \<lparr>Resolved = ''github:NixOS/nixpkgs/75a5ebf#go_1_22'', Source = ''devbox-search'',
      AllowInsecure = False, Systems = Map.empty\<rparr>"

definition exampleFetch :: "string list \<Rightarrow> string \<Rightarrow> error + Package option" where
  "exampleFetch asked pkg =
     (if pkg = ''github:NixOS/nixpkgs/nixpkgs-unstable'' then Inr (Some lockedStdenvPackage)
      else if pkg = ''go@1.22'' then Inr (Some goPackage)
      else Inr None)"

definition failingFetch :: "string list \<Rightarrow> string \<Rightarrow> error + Package option" where
  "failingFetch asked pkg = Inl (Failure ''network unreachable'')"

definition silentFetch :: "string list \<Rightarrow> string \<Rightarrow> error + Package option" where
  "silentFetch asked pkg = Inr None"

definition unparsableFetch :: "string list \<Rightarrow> string \<Rightarrow> error + Package option" where
  "unparsableFetch asked pkg =
     Inr (Some \<lparr>Resolved = ''nixpkgs-unstable'', Source = [], AllowInsecure = False,
                Systems = Map.empty\<rparr>)"

definition oldPythonPackage :: Package where
  "oldPythonPackage =
     \<lparr>Resolved = ''github:NixOS/nixpkgs/0000000#python3'', Source = ''nixpkg'',
      AllowInsecure = False, Systems = Map.empty\<rparr>"

definition helloPackage :: Package where
  "helloPackage =
     \<lparr>Resolved = ''github:NixOS/nixpkgs/75a5ebf#hello'', Source = ''devbox-search'',
      AllowInsecure = False, Systems = Map.empty\<rparr>"

definition helloFile :: File where
  "helloFile = \<lparr>LockFileVersion = ''1'', Packages = [''hello'' \<mapsto> helloPackage]\<rparr>"

definition unlockedRef :: flake_Ref where
  "unlockedRef =
     \<lparr>Owner = ''NixOS'', Repo = ''nixpkgs'', Ref = ''nixpkgs-unstable'', Rev = [], Dir = []\<rparr>"

definition lockedRef :: flake_Ref where
  "lockedRef = \<lparr>Owner = ''NixOS'', Repo = ''nixpkgs'', Ref = [], Rev = ''4f8a1c2'', Dir = []\<rparr>"

definition pythonPackage :: Package where
  "pythonPackage =
     \<lparr>Resolved = ''github:NixOS/nixpkgs/4f8a1c2#python3'', Source = ''nixpkg'',
      AllowInsecure = False, Systems = Map.empty\<rparr>"

definition pythonStore :: store where
  "pythonStore =
     \<lparr>lockfile =
        \<lparr>LockFileVersion = ''1'',
         Packages = [''github:NixOS/nixpkgs/nixpkgs-unstable'' \<mapsto> lockedStdenvPackage,
                     ''python3'' \<mapsto> pythonPackage]\<rparr>,
      calls = [''github:NixOS/nixpkgs/nixpkgs-unstable'']\<rparr>"

definition oldStore :: store where
  "oldStore =
     \<lparr>lockfile = \<lparr>LockFileVersion = ''1'', Packages = [''python3'' \<mapsto> oldPythonPackage]\<rparr>,
      calls = []\<rparr>"

text \<open>
  The example of \<open>Tidy\<close> in the spec: the base reference is written \<open>nixpkgs#stdenv\<close>, the
  project declares \<open>foo@1\<close>, and the lock file has entries for \<open>foo@1\<close>, \<open>bar\<close> and
  \<open>nixpkgs#stdenv\<close>.
\<close>

definition tidyEnv :: "(string \<rightharpoonup> File) env" where
  "tidyEnv = (exampleEnv exampleFetch)\<lparr>Ref_String := (\<lambda>r. ''nixpkgs#stdenv'')\<rparr>"

definition tidyFile :: File where
  "tidyFile =
     \<lparr>LockFileVersion = ''1'',
      Packages = [''foo@1'' \<mapsto> goPackage, ''bar'' \<mapsto> helloPackage,
                  ''nixpkgs#stdenv'' \<mapsto> lockedStdenvPackage]\<rparr>"

text \<open>A project whose hash function fails, and a file system that holds \<open>helloFile\<close>.\<close>

definition brokenHashEnv :: "(string \<rightharpoonup> File) env" where
  "brokenHashEnv =
     (exampleEnv exampleFetch)\<lparr>cachehash_JSON := (\<lambda>f. Inl (Failure ''json: unsupported value''))\<rparr>"

text \<open>
  A project whose lock file cannot be parsed, and one whose hash function fails on a
  lock file without the entry \<open>hello\<close>.
\<close>

definition unreadableEnv :: "(string \<rightharpoonup> File) env" where
  "unreadableEnv =
     (exampleEnv exampleFetch)\<lparr>ParseFile := (\<lambda>disk path f. Inl (Failure ''invalid character''))\<rparr>"

definition halfHashEnv :: "(string \<rightharpoonup> File) env" where
  "halfHashEnv =
     (exampleEnv exampleFetch)\<lparr>cachehash_JSON :=
        (\<lambda>f. case Packages f ''hello'' of
                None \<Rightarrow> Inl (Failure ''json: unsupported value'')
              | Some p \<Rightarrow> Inr (Resolved p))\<rparr>"

definition helloDisk :: "string \<rightharpoonup> File" where
  "helloDisk = [''/home/user/project/devbox.lock'' \<mapsto> helloFile]"

text \<open>
  A world for the plugin examples: the cache (a key to a value and the time it expires),
  the clock, the requests sent, and the values logged.
\<close>

record exampleWorld =
  cache :: "string \<rightharpoonup> string \<times> int"
  clock :: int
  sent :: "Request list"
  logged :: "string list"

text \<open>
  Modelled from the spec: \<open>GetOrSet\<close> of the package \<open>filecache\<close> is not under \<open>src/\<close>.
  Section 4.3 of the spec: \<open>GetOrSet(key, computeFn)\<close> returns the value of an entry that
  has not expired; otherwise it calls \<open>computeFn\<close>, which returns a value and a time to
  live, and stores the value until the clock passes now plus the time to live.
\<close>

definition exampleGetOrSet ::
  "exampleWorld \<Rightarrow> string \<Rightarrow> (exampleWorld \<Rightarrow> (error + string \<times> int) \<times> exampleWorld) \<Rightarrow>
   (error + string) \<times> exampleWorld" where
  "exampleGetOrSet w key compute =
     (case cache w key of
        Some (v, expiry) \<Rightarrow>
          if clock w \<le> expiry then (Inr v, w)
          else (case compute w of
                  (Inl err, w1) \<Rightarrow> (Inl err, w1)
                | (Inr (v1, ttl), w1) \<Rightarrow> (Inr v1, w1\<lparr>cache := (cache w1)(key \<mapsto> (v1, clock w1 + ttl))\<rparr>))
      | None \<Rightarrow>
          (case compute w of
             (Inl err, w1) \<Rightarrow> (Inl err, w1)
           | (Inr (v1, ttl), w1) \<Rightarrow> (Inr v1, w1\<lparr>cache := (cache w1)(key \<mapsto> (v1, clock w1 + ttl))\<rparr>)))"

text \<open>
  A plugin environment in which \<open>DEVBOX_X_GITHUB_PLUGIN_CACHE_TTL\<close> is \<open>ttlStr\<close>, no
  \<open>GITHUB_TOKEN\<close> is set, \<open>1h\<close> is the only duration that parses, and every request is
  answered with status 200 and the body \<open>{}\<close>.
\<close>

definition examplePluginEnv :: "string \<Rightarrow> exampleWorld plugin_env" where
  "examplePluginEnv ttlStr =
     \<lparr>Getenv = (\<lambda>k. if k = ''DEVBOX_X_GITHUB_PLUGIN_CACHE_TTL'' then ttlStr else []),
      JoinPath = (\<lambda>base elems. Inr (base @ concat (map (\<lambda>x. x @ ''/'') (butlast elems)) @ last elems)),
      ParseDuration =
        (\<lambda>s. if s = ''1h'' then Inr Hour else Inl (Failure (''time: invalid duration '' @ s))),
      NewRequest = (\<lambda>method u. Inr \<lparr>URL = u, Header = Map.empty\<rparr>),
      client_Do = (\<lambda>w req. (Inr \<lparr>StatusCode = 200, Body = Inr ''{}''\<rparr>, w\<lparr>sent := sent w @ [req]\<rparr>)),
      slog_Debug = (\<lambda>w msg k v. w\<lparr>logged := logged w @ [v]\<rparr>),
      ref_String = exampleRefString,
      GetOrSet = exampleGetOrSet\<rparr>"

definition examplePlugin :: githubPlugin where
  "examplePlugin =
     \<lparr>plugin_ref = \<lparr>Owner = ''jetify-com'', Repo = ''devbox-plugins'', Ref = [], Rev = [],
                    Dir = ''mongodb''\<rparr>,
      plugin_name = ''jetify-com.devbox-plugins.mongodb''\<rparr>"

definition quietWorld :: exampleWorld where
  "quietWorld = \<lparr>cache = Map.empty, clock = 1000, sent = [], logged = []\<rparr>"

section \<open>Facts about the string functions\<close>

lemma Repeat_star: "Repeat ''*'' n = replicate n (CHR ''*'')"
  by (induction n) (simp_all add: Repeat_def)


lemma Cut_char_None: "Cut s [c] = None \<longleftrightarrow> c \<notin> set s"
  by (induction s) (auto split: option.splits)

lemma Cut_char_append:
  "c \<notin> set a \<Longrightarrow> Cut (a @ c # b) [c] = Some (a, b)"
  by (induction a) auto

lemma SplitN_2: "SplitN s sep 2 = (case Cut s sep of None \<Rightarrow> [s] | Some (a, b) \<Rightarrow> [a, b])"
  by (simp add: numeral_2_eq_2 split: option.splits)

lemma Header_Get_authRequest:
  "Header_Get (Header (authRequest u v)) ''Authorization'' = v"
  by (simp add: authRequest_def Header_Add_def Header_Get_def)



section \<open>Facts about \<open>Resolve\<close> and \<open>Stdenv\<close>\<close>

text \<open>
  The equations of \<open>Resolve\<close> and \<open>Stdenv\<close> with the three tests of the dispatch folded
  into \<open>external\<close>. A result does not depend on the depth allowed once it is reached
  (\<open>fuel_Suc\<close>). A call of \<open>Resolve\<close> asks the external resolver at most once
  (\<open>calls_grow\<close>). When the base reference does not reach the legacy branch, \<open>Stdenv\<close>
  returns within two nested calls and \<open>Resolve\<close> within three; when it does, \<open>Stdenv\<close>
  calls \<open>Resolve\<close> and \<open>Resolve\<close> calls \<open>Stdenv\<close> on the same store without end
  (\<open>never_returns\<close>).
\<close>

lemma Resolve_Suc:
  "Resolve (Suc n) e s pkg =
     (case resolvedEntry (lockfile s) pkg of
        Some entry \<Rightarrow> Some (Inr entry, s)
      | None \<Rightarrow>
          if external e pkg then
            (case FetchResolvedPackage e (calls s) pkg of
               Inl err \<Rightarrow> Some (Inl err, s\<lparr>calls := calls s @ [pkg]\<rparr>)
             | Inr resolved \<Rightarrow>
                 Some (setEntry (s\<lparr>calls := calls s @ [pkg]\<rparr>) pkg
                         (case resolved of None \<Rightarrow> zeroPackage | Some r \<Rightarrow> r)))
          else if IsLegacyPackage e pkg then
            (case Stdenv n e s of
               None \<Rightarrow> None
             | Some (r, s1) \<Rightarrow>
                 Some (setEntry s1 pkg
                         \<lparr>Resolved = Installable_String e r pkg, Source = nixpkgSource e,
                          AllowInsecure = False, Systems = Map.empty\<rparr>))
          else Some (setEntry s pkg zeroPackage))"
  by (simp add: external_def versioned_def split: option.splits prod.splits)

lemma Stdenv_Suc:
  "Stdenv (Suc n) e s =
     (case Resolve n e s (Ref_String e (project_Stdenv (project e))) of
        None \<Rightarrow> None
      | Some (Inl err, s1) \<Rightarrow> Some (project_Stdenv (project e), s1)
      | Some (Inr pkg, s1) \<Rightarrow>
          (case ParseRef e (Resolved pkg) of
             Inl err \<Rightarrow> Some (project_Stdenv (project e), s1)
           | Inr r \<Rightarrow> Some (r, s1)))"
  by (simp add: Let_def)

declare Resolve.simps(2) [simp del]

declare Stdenv.simps(2) [simp del]

lemma fuel_Suc:
  "(Resolve n e s pkg = Some x \<longrightarrow> Resolve (Suc n) e s pkg = Some x) \<and>
   (Stdenv n e s = Some y \<longrightarrow> Stdenv (Suc n) e s = Some y)"
proof (induction n arbitrary: s pkg x y)
  case 0
  show ?case by simp
next
  case (Suc n)
  have r: "Resolve (Suc n) e s pkg = Some x \<Longrightarrow> Resolve (Suc (Suc n)) e s pkg = Some x"
    using Suc [of s] 
    by (subst Resolve_Suc, subst (asm) Resolve_Suc) (auto split: option.splits if_splits sum.splits)
  have t: "Stdenv (Suc n) e s = Some y \<Longrightarrow> Stdenv (Suc (Suc n)) e s = Some y"
    using Suc [of s "Ref_String e (project_Stdenv (project e))"]
    by (subst Stdenv_Suc, subst (asm) Stdenv_Suc) (auto split: option.splits sum.splits)
  from r t show ?case by blast
qed

lemma fuel_add:
  "Resolve n e s pkg = Some x \<Longrightarrow> Resolve (n + k) e s pkg = Some x"
  by (induction k) (simp_all add: fuel_Suc)

lemma fuel_add_Stdenv:
  "Stdenv n e s = Some y \<Longrightarrow> Stdenv (n + k) e s = Some y"
  by (induction k) (simp_all add: fuel_Suc)

lemma resolvedEntry_Some:
  "resolvedEntry f pkg = Some entry \<longleftrightarrow> Packages f pkg = Some entry \<and> Resolved entry \<noteq> []"
  by (auto simp: resolvedEntry_def split: option.splits)

lemma Resolve_cached:
  "Packages (lockfile s) pkg = Some entry \<Longrightarrow> Resolved entry \<noteq> [] \<Longrightarrow>
   Resolve (Suc n) e s pkg = Some (Inr entry, s)"
  by (simp add: Resolve_Suc resolvedEntry_def)

lemma Resolve_stores:
  "Resolve n e s pkg = Some (Inr p, s1) \<Longrightarrow> Packages (lockfile s1) pkg = Some p"
  by (cases n)
     (auto simp: Resolve_Suc setEntry_def resolvedEntry_Some
           split: option.splits if_splits sum.splits)

lemma Resolve_error:
  "Resolve n e s pkg = Some (Inl err, s1) \<Longrightarrow>
   s1 = s\<lparr>calls := calls s @ [pkg]\<rparr> \<and> FetchResolvedPackage e (calls s) pkg = Inl err \<and>
   external e pkg \<and> resolvedEntry (lockfile s) pkg = None"
  by (cases n)
     (auto simp: Resolve_Suc setEntry_def
           split: option.splits if_splits sum.splits)

lemma calls_grow:
  "(Resolve n e s pkg = Some (x, s1) \<longrightarrow> calls s1 = calls s \<or> (\<exists>q. calls s1 = calls s @ [q])) \<and>
   (Stdenv n e s = Some (y, s2) \<longrightarrow> calls s2 = calls s \<or> (\<exists>q. calls s2 = calls s @ [q]))"
proof (induction n arbitrary: s pkg x s1 y s2)
  case 0
  show ?case by simp
next
  case (Suc n)
  have ihR: "calls s1' = calls s' \<or> (\<exists>q. calls s1' = calls s' @ [q])"
    if "Resolve n e s' pkg' = Some (x', s1')" for s' pkg' x' s1'
    using Suc that by blast
  have ihS: "calls s2' = calls s' \<or> (\<exists>q. calls s2' = calls s' @ [q])"
    if "Stdenv n e s' = Some (y', s2')" for s' y' s2'
    using Suc that by blast
  have r: "calls s1 = calls s \<or> (\<exists>q. calls s1 = calls s @ [q])"
    if "Resolve (Suc n) e s pkg = Some (x, s1)"
    using that
    by (subst (asm) Resolve_Suc)
       (auto simp: setEntry_def dest: ihS split: option.splits if_splits sum.splits)
  have t: "calls s2 = calls s \<or> (\<exists>q. calls s2 = calls s @ [q])"
    if "Stdenv (Suc n) e s = Some (y, s2)"
    using that
    by (subst (asm) Stdenv_Suc) (auto dest: ihR split: option.splits sum.splits)
  from r t show ?case by blast
qed

lemma Resolve_1_returns:
  "resolvedEntry (lockfile s) pkg \<noteq> None \<or> external e pkg \<or> \<not> IsLegacyPackage e pkg \<Longrightarrow>
   \<exists>x. Resolve (Suc n) e s pkg = Some x"
  by (auto simp: Resolve_Suc split: option.splits sum.splits)

lemma Stdenv_returns:
  "stdenvSettles e s \<Longrightarrow> \<exists>y. Stdenv (Suc (Suc n)) e s = Some y"
  using Resolve_1_returns [of s "Ref_String e (project_Stdenv (project e))" e n]
  by (subst Stdenv_Suc) (auto simp: stdenvSettles_def Let_def split: option.splits sum.splits)

lemma Resolve_returns:
  "stdenvSettles e s \<Longrightarrow> \<exists>x. Resolve (Suc (Suc (Suc n))) e s pkg = Some x"
  using Stdenv_returns [of e s n]
  by (subst Resolve_Suc) (auto split: option.splits sum.splits)

lemma never_returns:
  "\<not> stdenvSettles e s \<Longrightarrow> Stdenv n e s = None"
proof (induction n rule: less_induct)
  case (less n)
  show ?case
  proof (cases n)
    case 0
    then show ?thesis by simp
  next
    case (Suc m)
    show ?thesis
    proof (cases m)
      case 0
      with Suc show ?thesis by (simp add: Stdenv_Suc)
    next
      case (Suc k)
      have "Stdenv k e s = None" using less Suc \<open>n = Suc m\<close> by simp
      with less.prems Suc \<open>n = Suc m\<close> show ?thesis
        by (simp add: Stdenv_Suc Resolve_Suc stdenvSettles_def Let_def)
    qed
  qed
qed

section \<open>Facts about the examples\<close>

lemmas example_defs =
  exampleEnv_def exampleProject_def exampleRefString_def exampleParseRef_def exampleFetch_def
  failingFetch_def emptyStore_def spec_IsRunX_def spec_ParseVersionedPackage_def
  spec_IsFlake_def lockedStdenvPackage_def goPackage_def pythonPackage_def pythonStore_def
  zeroPackage_def external_def versioned_def IsLegacyPackage_def resolvedEntry_def
  setEntry_def

lemma python3_resolves:
  "Resolve 3 (exampleEnv exampleFetch) emptyStore ''python3'' = Some (Inr pythonPackage, pythonStore)"
  by (simp add: Resolve_Suc Stdenv_Suc example_defs eval_nat_numeral)

lemma example_url:
  "url (examplePluginEnv ttlStr) examplePlugin ''plugin.json'' =
     Inr ''https://raw.githubusercontent.com/jetify-com/devbox-plugins/master/mongodb/plugin.json''"
  by (simp add: url_def examplePluginEnv_def examplePlugin_def)





section \<open>The lock store\<close>

text \<open>
  Claim C1, as amended. A spec whose entry has a resolved string that is not empty gets
  that entry back: the store, with the list of calls to the external resolver, is the
  one before the call. When a call of \<open>Resolve\<close> returns a package whose resolved string
  is not empty, a second call on the store it leaves returns the same package and leaves
  the store as it is, and the first call has asked the external resolver at most once.
\<close>

theorem Resolve_idempotent:
  "(Packages (lockfile s) pkg = Some entry \<and> Resolved entry \<noteq> [] \<longrightarrow>
      Resolve (Suc n) e s pkg = Some (Inr entry, s)) \<and>
   (Resolve n e s pkg = Some (Inr p, s1) \<and> Resolved p \<noteq> [] \<longrightarrow>
      Resolve (Suc m) e s1 pkg = Some (Inr p, s1) \<and>
      length (calls s1) \<le> Suc (length (calls s)))"
proof (intro conjI impI)
  assume "Packages (lockfile s) pkg = Some entry \<and> Resolved entry \<noteq> []"
  then show "Resolve (Suc n) e s pkg = Some (Inr entry, s)"
    by (simp add: Resolve_cached)
next
  assume a: "Resolve n e s pkg = Some (Inr p, s1) \<and> Resolved p \<noteq> []"
  then have "Packages (lockfile s1) pkg = Some p"
    using Resolve_stores [of n e s pkg p s1] by simp
  with a show "Resolve (Suc m) e s1 pkg = Some (Inr p, s1)"
    by (simp add: Resolve_cached)
next
  assume a: "Resolve n e s pkg = Some (Inr p, s1) \<and> Resolved p \<noteq> []"
  then have "calls s1 = calls s \<or> (\<exists>q. calls s1 = calls s @ [q])"
    using calls_grow [of n e s pkg "Inr p" s1] by simp
  then show "length (calls s1) \<le> Suc (length (calls s))"
    by auto
qed

text \<open>
  The theorem at \<open>go@1.22\<close> in the example project, on an empty store: the first call
  asks the resolver once, the second returns the stored package and asks nothing. And at
  \<open>python3\<close> on a store that holds its resolved entry, with a resolver that would fail.
\<close>

theorem Resolve_idempotent_witness:
  "Resolve 1 (exampleEnv exampleFetch) emptyStore ''go@1.22'' =
     Some (Inr goPackage,
           \<lparr>lockfile = \<lparr>LockFileVersion = ''1'', Packages = [''go@1.22'' \<mapsto> goPackage]\<rparr>,
            calls = [''go@1.22'']\<rparr>) \<and>
   Resolve 1 (exampleEnv exampleFetch)
     \<lparr>lockfile = \<lparr>LockFileVersion = ''1'', Packages = [''go@1.22'' \<mapsto> goPackage]\<rparr>,
      calls = [''go@1.22'']\<rparr> ''go@1.22'' =
     Some (Inr goPackage,
           \<lparr>lockfile = \<lparr>LockFileVersion = ''1'', Packages = [''go@1.22'' \<mapsto> goPackage]\<rparr>,
            calls = [''go@1.22'']\<rparr>) \<and>
   Resolve 1 (exampleEnv failingFetch) pythonStore ''python3'' = Some (Inr pythonPackage, pythonStore)"
proof -
  have first: "Resolve 1 (exampleEnv exampleFetch) emptyStore ''go@1.22'' =
     Some (Inr goPackage,
           \<lparr>lockfile = \<lparr>LockFileVersion = ''1'', Packages = [''go@1.22'' \<mapsto> goPackage]\<rparr>,
            calls = [''go@1.22'']\<rparr>)"
    by (simp add: Resolve_Suc example_defs)
  have ne: "Resolved goPackage \<noteq> []"
    by (simp add: goPackage_def)
  have second: "Resolve 1 (exampleEnv exampleFetch)
     \<lparr>lockfile = \<lparr>LockFileVersion = ''1'', Packages = [''go@1.22'' \<mapsto> goPackage]\<rparr>,
      calls = [''go@1.22'']\<rparr> ''go@1.22'' =
     Some (Inr goPackage,
           \<lparr>lockfile = \<lparr>LockFileVersion = ''1'', Packages = [''go@1.22'' \<mapsto> goPackage]\<rparr>,
            calls = [''go@1.22'']\<rparr>)"
    using first ne
      Resolve_idempotent [where n = 1 and e = "exampleEnv exampleFetch" and s = emptyStore
        and pkg = "''go@1.22''" and p = goPackage and m = 0, THEN conjunct2]
    by simp
  have third: "Resolve 1 (exampleEnv failingFetch) pythonStore ''python3'' =
      Some (Inr pythonPackage, pythonStore)"
    using Resolve_idempotent [where n = 0 and e = "exampleEnv failingFetch" and s = pythonStore
        and pkg = "''python3''" and entry = pythonPackage, THEN conjunct1]
    by (simp add: pythonStore_def pythonPackage_def)
  from first second third show ?thesis by simp
qed

text \<open>
  Claim C1, as stated, on a flake spec for which the external resolver returns
  \<open>nil, nil\<close>: \<open>Resolve\<close> stores an empty package, whose resolved string is empty, so the
  second call asks the resolver again. The two calls ask it twice.
\<close>

theorem Resolve_twice_asks_twice:
  "Resolve 1 (exampleEnv silentFetch) emptyStore ''github:owner/repo'' =
     Some (Inr zeroPackage,
           \<lparr>lockfile = \<lparr>LockFileVersion = ''1'', Packages = [''github:owner/repo'' \<mapsto> zeroPackage]\<rparr>,
            calls = [''github:owner/repo'']\<rparr>) \<and>
   Resolve 1 (exampleEnv silentFetch)
     \<lparr>lockfile = \<lparr>LockFileVersion = ''1'', Packages = [''github:owner/repo'' \<mapsto> zeroPackage]\<rparr>,
      calls = [''github:owner/repo'']\<rparr> ''github:owner/repo'' =
     Some (Inr zeroPackage,
           \<lparr>lockfile = \<lparr>LockFileVersion = ''1'', Packages = [''github:owner/repo'' \<mapsto> zeroPackage]\<rparr>,
            calls = [''github:owner/repo'', ''github:owner/repo'']\<rparr>)"
  by (simp add: Resolve_Suc example_defs silentFetch_def)




text \<open>
  Claim C3, as amended. When \<open>Resolve\<close> returns a package, the store it leaves holds that
  package under the spec. \<open>Resolve\<close> returns an error exactly when the spec has no
  resolved entry, is RunX, versioned or a flake, and the external resolver returns an
  error for it: the error is the resolver's, and the packages of the lock file are the
  ones before the call. In every other case in which it returns, it returns a package.
  \<open>Resolve\<close> returns, within three nested calls, whenever the base reference does not
  reach the legacy branch.
\<close>

theorem Resolve_writes_entry:
  "(Resolve n e s pkg = Some (Inr p, s1) \<longrightarrow> Packages (lockfile s1) pkg = Some p) \<and>
   (Resolve (Suc k) e s pkg = Some (Inl err, s1) \<longleftrightarrow>
      resolvedEntry (lockfile s) pkg = None \<and>
      (IsRunX e pkg \<or> versioned e pkg \<or> IsFlake e pkg) \<and>
      FetchResolvedPackage e (calls s) pkg = Inl err \<and>
      s1 = s\<lparr>calls := calls s @ [pkg]\<rparr>) \<and>
   (Resolve n e s pkg = Some (Inl err, s1) \<longrightarrow>
      Packages (lockfile s1) = Packages (lockfile s)) \<and>
   (stdenvSettles e s \<longrightarrow> (\<exists>x. Resolve (Suc (Suc (Suc k))) e s pkg = Some x))"
proof -
  have c1: "Resolve n e s pkg = Some (Inr p, s1) \<longrightarrow> Packages (lockfile s1) pkg = Some p"
    using Resolve_stores [of n e s pkg p s1] by blast
  have c2: "Resolve (Suc k) e s pkg = Some (Inl err, s1) \<longleftrightarrow>
      resolvedEntry (lockfile s) pkg = None \<and>
      (IsRunX e pkg \<or> versioned e pkg \<or> IsFlake e pkg) \<and>
      FetchResolvedPackage e (calls s) pkg = Inl err \<and>
      s1 = s\<lparr>calls := calls s @ [pkg]\<rparr>"
  proof
    assume a: "Resolve (Suc k) e s pkg = Some (Inl err, s1)"
    from Resolve_error [OF a]
    show "resolvedEntry (lockfile s) pkg = None \<and>
      (IsRunX e pkg \<or> versioned e pkg \<or> IsFlake e pkg) \<and>
      FetchResolvedPackage e (calls s) pkg = Inl err \<and>
      s1 = s\<lparr>calls := calls s @ [pkg]\<rparr>"
      by (simp add: external_def)
  next
    assume "resolvedEntry (lockfile s) pkg = None \<and>
      (IsRunX e pkg \<or> versioned e pkg \<or> IsFlake e pkg) \<and>
      FetchResolvedPackage e (calls s) pkg = Inl err \<and>
      s1 = s\<lparr>calls := calls s @ [pkg]\<rparr>"
    then show "Resolve (Suc k) e s pkg = Some (Inl err, s1)"
      by (simp add: Resolve_Suc external_def)
  qed
  have c3: "Resolve n e s pkg = Some (Inl err, s1) \<longrightarrow>
      Packages (lockfile s1) = Packages (lockfile s)"
  proof
    assume a: "Resolve n e s pkg = Some (Inl err, s1)"
    from Resolve_error [OF a] show "Packages (lockfile s1) = Packages (lockfile s)"
      by simp
  qed
  have c4: "stdenvSettles e s \<longrightarrow> (\<exists>x. Resolve (Suc (Suc (Suc k))) e s pkg = Some x)"
    using Resolve_returns [of e s k pkg] by blast
  from c1 c2 c3 c4 show ?thesis by blast
qed

text \<open>
  The theorem in the example project, on an empty store: \<open>python3\<close> is stored; with a
  resolver that fails, \<open>hello@2.12\<close> gives the error and the same packages, while the
  legacy package \<open>python3\<close>, for which \<open>Stdenv\<close> swallows the error, is resolved against
  the unlocked reference and stored.
\<close>

theorem Resolve_writes_entry_witness:
  "Resolve 3 (exampleEnv exampleFetch) emptyStore ''python3'' = Some (Inr pythonPackage, pythonStore) \<and>
   Packages (lockfile pythonStore) ''python3'' = Some pythonPackage \<and>
   Resolve 1 (exampleEnv failingFetch) emptyStore ''hello@2.12'' =
     Some (Inl (Failure ''network unreachable''), emptyStore\<lparr>calls := [''hello@2.12'']\<rparr>) \<and>
   Packages (lockfile (emptyStore\<lparr>calls := [''hello@2.12'']\<rparr>)) = Packages (lockfile emptyStore) \<and>
   Resolve 3 (exampleEnv failingFetch) emptyStore ''python3'' =
     Some (Inr \<lparr>Resolved = ''github:NixOS/nixpkgs/nixpkgs-unstable#python3'', Source = ''nixpkg'',
                AllowInsecure = False, Systems = Map.empty\<rparr>,
           \<lparr>lockfile =
              \<lparr>LockFileVersion = ''1'',
               Packages = [''python3'' \<mapsto>
                 \<lparr>Resolved = ''github:NixOS/nixpkgs/nixpkgs-unstable#python3'',
                  Source = ''nixpkg'', AllowInsecure = False, Systems = Map.empty\<rparr>]\<rparr>,
            calls = [''github:NixOS/nixpkgs/nixpkgs-unstable'']\<rparr>) \<and>
   (\<exists>x. Resolve 3 (exampleEnv failingFetch) emptyStore ''python3'' = Some x)"
proof -
  note t = Resolve_writes_entry
  have a: "Packages (lockfile pythonStore) ''python3'' = Some pythonPackage"
    using python3_resolves
      t [where n = 3 and e = "exampleEnv exampleFetch" and s = emptyStore
        and pkg = "''python3''" and p = pythonPackage and ?s1.0 = pythonStore, THEN conjunct1]
    by simp
  have b: "Resolve 1 (exampleEnv failingFetch) emptyStore ''hello@2.12'' =
     Some (Inl (Failure ''network unreachable''), emptyStore\<lparr>calls := [''hello@2.12'']\<rparr>)"
    using t [where k = 0 and e = "exampleEnv failingFetch" and s = emptyStore
        and pkg = "''hello@2.12''" and err = "Failure ''network unreachable''"
        and ?s1.0 = "emptyStore\<lparr>calls := [''hello@2.12'']\<rparr>",
        THEN conjunct2, THEN conjunct1]
    by (simp add: example_defs)
  have c: "Packages (lockfile (emptyStore\<lparr>calls := [''hello@2.12'']\<rparr>)) =
      Packages (lockfile emptyStore)"
    using b t [where n = 1 and e = "exampleEnv failingFetch" and s = emptyStore
        and pkg = "''hello@2.12''" and err = "Failure ''network unreachable''"
        and ?s1.0 = "emptyStore\<lparr>calls := [''hello@2.12'']\<rparr>",
        THEN conjunct2, THEN conjunct2, THEN conjunct1]
    by simp
  have l: "Resolve 3 (exampleEnv failingFetch) emptyStore ''python3'' =
     Some (Inr \<lparr>Resolved = ''github:NixOS/nixpkgs/nixpkgs-unstable#python3'', Source = ''nixpkg'',
                AllowInsecure = False, Systems = Map.empty\<rparr>,
           \<lparr>lockfile =
              \<lparr>LockFileVersion = ''1'',
               Packages = [''python3'' \<mapsto>
                 \<lparr>Resolved = ''github:NixOS/nixpkgs/nixpkgs-unstable#python3'',
                  Source = ''nixpkg'', AllowInsecure = False, Systems = Map.empty\<rparr>]\<rparr>,
            calls = [''github:NixOS/nixpkgs/nixpkgs-unstable'']\<rparr>)"
    by (simp add: Resolve_Suc Stdenv_Suc example_defs eval_nat_numeral)
  have d: "\<exists>x. Resolve 3 (exampleEnv failingFetch) emptyStore ''python3'' = Some x"
    using t [where k = 0 and e = "exampleEnv failingFetch" and s = emptyStore
        and pkg = "''python3''", THEN conjunct2, THEN conjunct2, THEN conjunct2]
    by (simp add: stdenvSettles_def example_defs eval_nat_numeral)
  from python3_resolves a b c l d show ?thesis by simp
qed

text \<open>
  Claim C3, as stated, at \<open>go@1.22\<close> when the external resolver fails: \<open>Resolve\<close>
  returns the error and the packages of the store are still empty.
\<close>

theorem Resolve_error_writes_nothing:
  "Resolve 1 (exampleEnv failingFetch) emptyStore ''go@1.22'' =
     Some (Inl (Failure ''network unreachable''),
           \<lparr>lockfile = \<lparr>LockFileVersion = ''1'', Packages = Map.empty\<rparr>,
            calls = [''go@1.22'']\<rparr>)"
  by (simp add: Resolve_Suc example_defs)

text \<open>
  Claim C4. When the hash of the lock file in memory and the hash of the lock file
  loaded again from the file system are equal, \<open>Save\<close> returns \<open>nil\<close> and leaves the lock
  file in memory and the file system as they are. When a hash cannot be computed or the
  file cannot be loaded, \<open>Save\<close> returns that error, again without a write. When the
  hashes differ, \<open>Save\<close> writes the lock file with the legacy outputs cleared.
\<close>

theorem Save_skips_clean_file:
  "(\<forall>h g. cachehash_JSON e f = Inr h \<and> GetFile e disk = Inr g \<and> cachehash_JSON e g = Inr h \<longrightarrow>
      Save e f disk = (None, f, disk)) \<and>
   (\<forall>err. cachehash_JSON e f = Inl err \<longrightarrow> Save e f disk = (Some err, f, disk)) \<and>
   (\<forall>h err. cachehash_JSON e f = Inr h \<and> GetFile e disk = Inl err \<longrightarrow>
      Save e f disk = (Some err, f, disk)) \<and>
   (\<forall>h g err. cachehash_JSON e f = Inr h \<and> GetFile e disk = Inr g \<and>
      cachehash_JSON e g = Inl err \<longrightarrow> Save e f disk = (Some err, f, disk)) \<and>
   (\<forall>h g h'. cachehash_JSON e f = Inr h \<and> GetFile e disk = Inr g \<and>
      cachehash_JSON e g = Inr h' \<and> h \<noteq> h' \<longrightarrow>
      Save e f disk =
        (case WriteFile e disk (lockFilePath e (ProjectDir (project e)))
                (f\<lparr>Packages := clearStorePathOutputs (Packages f)\<rparr>) of
           (err, disk') \<Rightarrow>
             (err,
              f\<lparr>Packages := ensurePackagesHaveOutputs e (clearStorePathOutputs (Packages f))\<rparr>,
              disk')))"
  by (simp add: Save_def isDirty_def Let_def split: prod.splits)

text \<open>
  The theorem in the example project: a lock file equal to the one on the file system;
  a hash function that fails; a lock file that cannot be parsed; a hash function that
  fails on the lock file loaded again; and a lock file that is not yet on the file
  system, which \<open>Save\<close> writes.
\<close>

theorem Save_skips_clean_file_witness:
  "Save (exampleEnv exampleFetch) helloFile helloDisk = (None, helloFile, helloDisk) \<and>
   Save brokenHashEnv helloFile helloDisk =
     (Some (Failure ''json: unsupported value''), helloFile, helloDisk) \<and>
   Save unreadableEnv helloFile helloDisk =
     (Some (Failure ''invalid character''), helloFile, helloDisk) \<and>
   Save halfHashEnv helloFile Map.empty =
     (Some (Failure ''json: unsupported value''), helloFile, Map.empty) \<and>
   fst (Save (exampleEnv exampleFetch) helloFile Map.empty) = None \<and>
   snd (snd (Save (exampleEnv exampleFetch) helloFile Map.empty)) =
     [''/home/user/project/devbox.lock'' \<mapsto>
        helloFile\<lparr>Packages := clearStorePathOutputs (Packages helloFile)\<rparr>]"
proof -
  note t = Save_skips_clean_file
  have h: "cachehash_JSON (exampleEnv exampleFetch) helloFile =
             Inr ''1github:NixOS/nixpkgs/75a5ebf#hello''"
    by (simp add: example_defs helloFile_def helloPackage_def)
  have g: "GetFile (exampleEnv exampleFetch) helloDisk = Inr helloFile"
    by (simp add: GetFile_def lockFilePath_def helloDisk_def example_defs helloFile_def helloPackage_def)
  have 1: "Save (exampleEnv exampleFetch) helloFile helloDisk = (None, helloFile, helloDisk)"
    using t [of "exampleEnv exampleFetch" helloFile helloDisk,
        THEN conjunct1, THEN spec, THEN spec, of "''1github:NixOS/nixpkgs/75a5ebf#hello''" helloFile]
      h g
    by simp
  have b: "cachehash_JSON brokenHashEnv helloFile = Inl (Failure ''json: unsupported value'')"
    by (simp add: brokenHashEnv_def)
  have 2: "Save brokenHashEnv helloFile helloDisk =
     (Some (Failure ''json: unsupported value''), helloFile, helloDisk)"
    using t [of brokenHashEnv helloFile helloDisk,
        THEN conjunct2, THEN conjunct1, THEN spec, of "Failure ''json: unsupported value''"] b
    by simp
  have 3: "Save unreadableEnv helloFile helloDisk =
     (Some (Failure ''invalid character''), helloFile, helloDisk)"
    using t [of unreadableEnv helloFile helloDisk,
        THEN conjunct2, THEN conjunct2, THEN conjunct1, THEN spec, THEN spec,
        of "''1github:NixOS/nixpkgs/75a5ebf#hello''" "Failure ''invalid character''"]
    by (simp add: unreadableEnv_def GetFile_def example_defs helloFile_def helloPackage_def)
  have 4: "Save halfHashEnv helloFile Map.empty =
     (Some (Failure ''json: unsupported value''), helloFile, Map.empty)"
    using t [of halfHashEnv helloFile Map.empty,
        THEN conjunct2, THEN conjunct2, THEN conjunct2, THEN conjunct1, THEN spec, THEN spec,
        THEN spec,
        of "''github:NixOS/nixpkgs/75a5ebf#hello''"
           "\<lparr>LockFileVersion = lockFileVersion, Packages = Map.empty\<rparr>"
           "Failure ''json: unsupported value''"]
    by (simp add: halfHashEnv_def GetFile_def lockFilePath_def example_defs helloFile_def
          helloPackage_def)
  have 5: "Save (exampleEnv exampleFetch) helloFile Map.empty =
     (None, helloFile\<lparr>Packages := clearStorePathOutputs (Packages helloFile)\<rparr>,
      [''/home/user/project/devbox.lock'' \<mapsto>
        helloFile\<lparr>Packages := clearStorePathOutputs (Packages helloFile)\<rparr>])"
    using t [of "exampleEnv exampleFetch" helloFile Map.empty,
        THEN conjunct2, THEN conjunct2, THEN conjunct2, THEN conjunct2, THEN spec, THEN spec,
        THEN spec,
        of "''1github:NixOS/nixpkgs/75a5ebf#hello''"
           "\<lparr>LockFileVersion = lockFileVersion, Packages = Map.empty\<rparr>" "''1''"]
    by (simp add: GetFile_def lockFilePath_def lockFileVersion_def example_defs helloFile_def
          helloPackage_def)
  from 1 2 3 4 5 show ?thesis by simp
qed

text \<open>
  Claim C5, as amended. Let the spec be a legacy package that is neither RunX nor a
  flake and has no resolved entry. Then \<open>Resolve\<close> returns exactly when \<open>Stdenv\<close> does, and
  it returns and stores the package whose resolved string is the installable of the
  reference that \<open>Stdenv\<close> returned and the spec, with the source \<open>nixpkgSource\<close>. When the
  base reference does not reach the legacy branch, both return.
\<close>

theorem Resolve_legacy:
  assumes "IsLegacyPackage e pkg" and "\<not> IsRunX e pkg" and "\<not> IsFlake e pkg"
    and "resolvedEntry (lockfile s) pkg = None"
  shows "Resolve (Suc n) e s pkg =
           (case Stdenv n e s of
              None \<Rightarrow> None
            | Some (r, s1) \<Rightarrow>
                Some (Inr \<lparr>Resolved = Installable_String e r pkg, Source = nixpkgSource e,
                           AllowInsecure = False, Systems = Map.empty\<rparr>,
                      s1\<lparr>lockfile := (lockfile s1)\<lparr>Packages := (Packages (lockfile s1))
                        (pkg \<mapsto> \<lparr>Resolved = Installable_String e r pkg,
                                 Source = nixpkgSource e, AllowInsecure = False,
                                 Systems = Map.empty\<rparr>)\<rparr>\<rparr>)) \<and>
         (stdenvSettles e s \<longrightarrow>
            (\<exists>r s1 p s2.
               Stdenv (Suc (Suc k)) e s = Some (r, s1) \<and>
               Resolve (Suc (Suc (Suc k))) e s pkg = Some (Inr p, s2) \<and>
               Resolved p = Installable_String e r pkg \<and> Source p = nixpkgSource e \<and>
               Packages (lockfile s2) pkg = Some p))"
proof -
  have ne: "\<not> external e pkg"
    using assms(1-3) by (auto simp: external_def IsLegacyPackage_def versioned_def)
  have eq: "Resolve (Suc m) e s pkg =
           (case Stdenv m e s of
              None \<Rightarrow> None
            | Some (r, s1) \<Rightarrow>
                Some (Inr \<lparr>Resolved = Installable_String e r pkg, Source = nixpkgSource e,
                           AllowInsecure = False, Systems = Map.empty\<rparr>,
                      s1\<lparr>lockfile := (lockfile s1)\<lparr>Packages := (Packages (lockfile s1))
                        (pkg \<mapsto> \<lparr>Resolved = Installable_String e r pkg,
                                 Source = nixpkgSource e, AllowInsecure = False,
                                 Systems = Map.empty\<rparr>)\<rparr>\<rparr>))" for m
    using ne assms(1,4) by (simp add: Resolve_Suc setEntry_def split: option.splits)
  have "\<exists>r s1 p s2.
               Stdenv (Suc (Suc k)) e s = Some (r, s1) \<and>
               Resolve (Suc (Suc (Suc k))) e s pkg = Some (Inr p, s2) \<and>
               Resolved p = Installable_String e r pkg \<and> Source p = nixpkgSource e \<and>
               Packages (lockfile s2) pkg = Some p"
    if "stdenvSettles e s"
  proof -
    from Stdenv_returns [OF that, of k] obtain r s1
      where st: "Stdenv (Suc (Suc k)) e s = Some (r, s1)" by auto
    show ?thesis
      using st by (simp add: eq [of "Suc (Suc k)"])
  qed
  with eq [of n] show ?thesis by blast
qed

text \<open>
  The theorem at \<open>python3\<close> in the example project, on an empty store: the base
  reference is locked at revision \<open>4f8a1c2\<close>, and \<open>python3\<close> is resolved against it.
\<close>

theorem Resolve_legacy_witness:
  "Resolve 3 (exampleEnv exampleFetch) emptyStore ''python3'' =
     Some (Inr \<lparr>Resolved = ''github:NixOS/nixpkgs/4f8a1c2#python3'', Source = ''nixpkg'',
                AllowInsecure = False, Systems = Map.empty\<rparr>,
           \<lparr>lockfile =
              \<lparr>LockFileVersion = ''1'',
               Packages = [''github:NixOS/nixpkgs/nixpkgs-unstable'' \<mapsto> lockedStdenvPackage,
                           ''python3'' \<mapsto>
                             \<lparr>Resolved = ''github:NixOS/nixpkgs/4f8a1c2#python3'',
                              Source = ''nixpkg'', AllowInsecure = False,
                              Systems = Map.empty\<rparr>]\<rparr>,
            calls = [''github:NixOS/nixpkgs/nixpkgs-unstable'']\<rparr>) \<and>
   (\<exists>r s1 p s2.
      Stdenv 2 (exampleEnv exampleFetch) emptyStore = Some (r, s1) \<and>
      Resolve 3 (exampleEnv exampleFetch) emptyStore ''python3'' = Some (Inr p, s2) \<and>
      Resolved p = exampleRefString r @ ''#python3'' \<and> Source p = ''nixpkg'' \<and>
      Packages (lockfile s2) ''python3'' = Some p)"
proof -
  have 1: "IsLegacyPackage (exampleEnv exampleFetch) ''python3''"
    by (simp add: example_defs)
  have 2: "\<not> IsRunX (exampleEnv exampleFetch) ''python3''"
    by (simp add: example_defs)
  have 3: "\<not> IsFlake (exampleEnv exampleFetch) ''python3''"
    by (simp add: example_defs)
  have 4: "resolvedEntry (lockfile emptyStore) ''python3'' = None"
    by (simp add: example_defs)
  have 5: "stdenvSettles (exampleEnv exampleFetch) emptyStore"
    by (simp add: stdenvSettles_def example_defs)
  have st: "Stdenv 2 (exampleEnv exampleFetch) emptyStore =
     Some (lockedRef,
           \<lparr>lockfile =
              \<lparr>LockFileVersion = ''1'',
               Packages = [''github:NixOS/nixpkgs/nixpkgs-unstable'' \<mapsto> lockedStdenvPackage]\<rparr>,
            calls = [''github:NixOS/nixpkgs/nixpkgs-unstable'']\<rparr>)"
    by (simp add: Resolve_Suc Stdenv_Suc example_defs lockedRef_def eval_nat_numeral)
  from Resolve_legacy [OF 1 2 3 4, THEN conjunct1, of 2] st
  have a: "Resolve 3 (exampleEnv exampleFetch) emptyStore ''python3'' =
     Some (Inr \<lparr>Resolved = ''github:NixOS/nixpkgs/4f8a1c2#python3'', Source = ''nixpkg'',
                AllowInsecure = False, Systems = Map.empty\<rparr>,
           \<lparr>lockfile =
              \<lparr>LockFileVersion = ''1'',
               Packages = [''github:NixOS/nixpkgs/nixpkgs-unstable'' \<mapsto> lockedStdenvPackage,
                           ''python3'' \<mapsto>
                             \<lparr>Resolved = ''github:NixOS/nixpkgs/4f8a1c2#python3'',
                              Source = ''nixpkg'', AllowInsecure = False,
                              Systems = Map.empty\<rparr>]\<rparr>,
            calls = [''github:NixOS/nixpkgs/nixpkgs-unstable'']\<rparr>)"
    by (simp add: eval_nat_numeral exampleEnv_def exampleRefString_def lockedRef_def)
  from Resolve_legacy [OF 1 2 3 4, THEN conjunct2, rule_format, OF 5, of 0]
  have b: "\<exists>r s1 p s2.
      Stdenv 2 (exampleEnv exampleFetch) emptyStore = Some (r, s1) \<and>
      Resolve 3 (exampleEnv exampleFetch) emptyStore ''python3'' = Some (Inr p, s2) \<and>
      Resolved p = exampleRefString r @ ''#python3'' \<and> Source p = ''nixpkg'' \<and>
      Packages (lockfile s2) ''python3'' = Some p"
    by (simp add: eval_nat_numeral exampleEnv_def)
  from a b show ?thesis by blast
qed

text \<open>
  Claim C5, as stated, at the legacy package \<open>python3\<close>. With an entry resolved earlier
  against revision \<open>0000000\<close>, \<open>Stdenv\<close> returns the reference locked at \<open>4f8a1c2\<close>, and
  \<open>Resolve\<close> returns the old entry. With an external resolver that fails, \<open>Stdenv\<close> falls
  back to the unlocked reference, and \<open>python3\<close> is resolved against
  \<open>nixpkgs-unstable\<close>.
\<close>

theorem Resolve_legacy_cached_or_unlocked:
  "IsLegacyPackage (exampleEnv exampleFetch) ''python3'' \<and>
   Stdenv 2 (exampleEnv exampleFetch) oldStore =
     Some (lockedRef,
           \<lparr>lockfile =
              \<lparr>LockFileVersion = ''1'',
               Packages = [''python3'' \<mapsto> oldPythonPackage,
                           ''github:NixOS/nixpkgs/nixpkgs-unstable'' \<mapsto> lockedStdenvPackage]\<rparr>,
            calls = [''github:NixOS/nixpkgs/nixpkgs-unstable'']\<rparr>) \<and>
   Installable_String (exampleEnv exampleFetch) lockedRef ''python3'' =
     ''github:NixOS/nixpkgs/4f8a1c2#python3'' \<and>
   Resolve 3 (exampleEnv exampleFetch) oldStore ''python3'' =
     Some (Inr \<lparr>Resolved = ''github:NixOS/nixpkgs/0000000#python3'', Source = ''nixpkg'',
                AllowInsecure = False, Systems = Map.empty\<rparr>, oldStore) \<and>
   Resolve 3 (exampleEnv failingFetch) emptyStore ''python3'' =
     Some (Inr \<lparr>Resolved = ''github:NixOS/nixpkgs/nixpkgs-unstable#python3'', Source = ''nixpkg'',
                AllowInsecure = False, Systems = Map.empty\<rparr>,
           \<lparr>lockfile =
              \<lparr>LockFileVersion = ''1'',
               Packages = [''python3'' \<mapsto>
                 \<lparr>Resolved = ''github:NixOS/nixpkgs/nixpkgs-unstable#python3'',
                  Source = ''nixpkg'', AllowInsecure = False, Systems = Map.empty\<rparr>]\<rparr>,
            calls = [''github:NixOS/nixpkgs/nixpkgs-unstable'']\<rparr>)"
  by (simp add: Resolve_Suc Stdenv_Suc example_defs oldStore_def oldPythonPackage_def lockedRef_def eval_nat_numeral)

text \<open>
  Claim C9. After \<open>Tidy\<close>, the entry of a key is the entry before when the key is one of
  \<open>AllPackageNamesIncludingRemovedTriggerPackages\<close> or the string of the project's base
  reference, and is absent otherwise: the keys left are the keys before that are in this
  keep-set. The version of the lock file is unchanged. \<open>Tidy\<close> takes and returns the lock
  file in memory only: its body calls nothing that reads or writes the file system.
\<close>

theorem Tidy_removes:
  "Packages (Tidy e f) key =
     (if key \<in> set (AllPackageNamesIncludingRemovedTriggerPackages (project e)) \<union>
               {Ref_String e (project_Stdenv (project e))}
      then Packages f key else None) \<and>
   dom (Packages (Tidy e f)) =
     dom (Packages f) \<inter>
       (set (AllPackageNamesIncludingRemovedTriggerPackages (project e)) \<union>
        {Ref_String e (project_Stdenv (project e))}) \<and>
   LockFileVersion (Tidy e f) = LockFileVersion f"
  by (auto simp: Tidy_def Let_def dom_def)

text \<open>
  The theorem at the example of the spec: of \<open>foo@1\<close>, \<open>bar\<close> and \<open>nixpkgs#stdenv\<close>, the
  entries of \<open>foo@1\<close> and \<open>nixpkgs#stdenv\<close> remain.
\<close>

theorem Tidy_removes_witness:
  "dom (Packages (Tidy tidyEnv tidyFile)) = {''foo@1'', ''nixpkgs#stdenv''} \<and>
   Packages (Tidy tidyEnv tidyFile) ''foo@1'' = Some goPackage \<and>
   Packages (Tidy tidyEnv tidyFile) ''nixpkgs#stdenv'' = Some lockedStdenvPackage \<and>
   Packages (Tidy tidyEnv tidyFile) ''bar'' = None"
proof -
  have d: "dom (Packages (Tidy tidyEnv tidyFile)) = {''foo@1'', ''nixpkgs#stdenv''}"
    using Tidy_removes [of tidyEnv tidyFile, THEN conjunct2, THEN conjunct1]
    by (auto simp: tidyEnv_def tidyFile_def exampleEnv_def exampleProject_def)
  have a: "Packages (Tidy tidyEnv tidyFile) ''foo@1'' = Some goPackage"
    using Tidy_removes [of tidyEnv tidyFile "''foo@1''", THEN conjunct1]
    by (simp add: tidyEnv_def tidyFile_def exampleEnv_def exampleProject_def)
  have b: "Packages (Tidy tidyEnv tidyFile) ''nixpkgs#stdenv'' = Some lockedStdenvPackage"
    using Tidy_removes [of tidyEnv tidyFile "''nixpkgs#stdenv''", THEN conjunct1]
    by (simp add: tidyEnv_def tidyFile_def exampleEnv_def exampleProject_def)
  have c: "Packages (Tidy tidyEnv tidyFile) ''bar'' = None"
    using Tidy_removes [of tidyEnv tidyFile "''bar''", THEN conjunct1]
    by (simp add: tidyEnv_def tidyFile_def exampleEnv_def exampleProject_def)
  from d a b c show ?thesis by simp
qed

text \<open>
  Claim C10. \<open>Stdenv\<close> returns a reference and no error. When \<open>Resolve\<close> of the base
  reference returns an error, or returns a package whose resolved string does not parse
  as a flake reference, \<open>Stdenv\<close> returns the project's unlocked reference; when the
  string parses, it returns the parsed reference. \<open>Stdenv\<close> returns whenever that call of
  \<open>Resolve\<close> returns.
\<close>

theorem Stdenv_falls_back:
  "(Resolve n e s (Ref_String e (project_Stdenv (project e))) = Some (Inl err, s1) \<longrightarrow>
      Stdenv (Suc n) e s = Some (project_Stdenv (project e), s1)) \<and>
   (Resolve n e s (Ref_String e (project_Stdenv (project e))) = Some (Inr p, s1) \<and>
    ParseRef e (Resolved p) = Inl err \<longrightarrow>
      Stdenv (Suc n) e s = Some (project_Stdenv (project e), s1)) \<and>
   (Resolve n e s (Ref_String e (project_Stdenv (project e))) = Some (Inr p, s1) \<and>
    ParseRef e (Resolved p) = Inr r \<longrightarrow>
      Stdenv (Suc n) e s = Some (r, s1)) \<and>
   (Resolve n e s (Ref_String e (project_Stdenv (project e))) \<noteq> None \<longrightarrow>
      Stdenv (Suc n) e s \<noteq> None)"
  by (auto simp: Stdenv_Suc split: sum.splits)

text \<open>
  The theorem in the example project, for an external resolver that fails, for one
  whose answer does not parse, for one whose answer parses, and for one that returns
  \<open>nil, nil\<close>.
\<close>

theorem Stdenv_falls_back_witness:
  "Stdenv 2 (exampleEnv failingFetch) emptyStore =
     Some (unlockedRef,
           \<lparr>lockfile = \<lparr>LockFileVersion = ''1'', Packages = Map.empty\<rparr>,
            calls = [''github:NixOS/nixpkgs/nixpkgs-unstable'']\<rparr>) \<and>
   Stdenv 2 (exampleEnv unparsableFetch) emptyStore =
     Some (unlockedRef,
           \<lparr>lockfile =
              \<lparr>LockFileVersion = ''1'',
               Packages = [''github:NixOS/nixpkgs/nixpkgs-unstable'' \<mapsto>
                 \<lparr>Resolved = ''nixpkgs-unstable'', Source = [], AllowInsecure = False,
                  Systems = Map.empty\<rparr>]\<rparr>,
            calls = [''github:NixOS/nixpkgs/nixpkgs-unstable'']\<rparr>) \<and>
   Stdenv 2 (exampleEnv exampleFetch) emptyStore =
     Some (lockedRef,
           \<lparr>lockfile =
              \<lparr>LockFileVersion = ''1'',
               Packages = [''github:NixOS/nixpkgs/nixpkgs-unstable'' \<mapsto> lockedStdenvPackage]\<rparr>,
            calls = [''github:NixOS/nixpkgs/nixpkgs-unstable'']\<rparr>) \<and>
   Stdenv 2 (exampleEnv silentFetch) emptyStore \<noteq> None"
proof -
  have a: "Resolve 1 (exampleEnv failingFetch) emptyStore
             (Ref_String (exampleEnv failingFetch) (project_Stdenv (project (exampleEnv failingFetch)))) =
           Some (Inl (Failure ''network unreachable''),
                 \<lparr>lockfile = \<lparr>LockFileVersion = ''1'', Packages = Map.empty\<rparr>,
                  calls = [''github:NixOS/nixpkgs/nixpkgs-unstable'']\<rparr>)"
    by (simp add: Resolve_Suc example_defs)
  have b: "Resolve 1 (exampleEnv unparsableFetch) emptyStore
             (Ref_String (exampleEnv unparsableFetch) (project_Stdenv (project (exampleEnv unparsableFetch)))) =
           Some (Inr \<lparr>Resolved = ''nixpkgs-unstable'', Source = [], AllowInsecure = False,
                  Systems = Map.empty\<rparr>,
                 \<lparr>lockfile =
              \<lparr>LockFileVersion = ''1'',
               Packages = [''github:NixOS/nixpkgs/nixpkgs-unstable'' \<mapsto>
                 \<lparr>Resolved = ''nixpkgs-unstable'', Source = [], AllowInsecure = False,
                  Systems = Map.empty\<rparr>]\<rparr>,
            calls = [''github:NixOS/nixpkgs/nixpkgs-unstable'']\<rparr>)"
    by (simp add: Resolve_Suc example_defs unparsableFetch_def)
  have c: "ParseRef (exampleEnv unparsableFetch) ''nixpkgs-unstable'' =
             Inl (Failure ''unsupported flake reference'')"
    by (simp add: example_defs)
  have d: "Resolve 1 (exampleEnv exampleFetch) emptyStore
             (Ref_String (exampleEnv exampleFetch) (project_Stdenv (project (exampleEnv exampleFetch)))) =
           Some (Inr lockedStdenvPackage,
                 \<lparr>lockfile =
              \<lparr>LockFileVersion = ''1'',
               Packages = [''github:NixOS/nixpkgs/nixpkgs-unstable'' \<mapsto> lockedStdenvPackage]\<rparr>,
            calls = [''github:NixOS/nixpkgs/nixpkgs-unstable'']\<rparr>)"
    by (simp add: Resolve_Suc example_defs)
  have e: "ParseRef (exampleEnv exampleFetch) (Resolved lockedStdenvPackage) = Inr lockedRef"
    by (simp add: example_defs lockedRef_def)
  have f: "Resolve 1 (exampleEnv silentFetch) emptyStore
             (Ref_String (exampleEnv silentFetch) (project_Stdenv (project (exampleEnv silentFetch)))) \<noteq> None"
    by (simp add: Resolve_Suc example_defs silentFetch_def)
  from Stdenv_falls_back [THEN conjunct1, rule_format, OF a]
  have 1: "Stdenv 2 (exampleEnv failingFetch) emptyStore =
     Some (unlockedRef,
           \<lparr>lockfile = \<lparr>LockFileVersion = ''1'', Packages = Map.empty\<rparr>,
            calls = [''github:NixOS/nixpkgs/nixpkgs-unstable'']\<rparr>)"
    by (simp add: example_defs unlockedRef_def eval_nat_numeral)
  from Stdenv_falls_back [THEN conjunct2, THEN conjunct1, rule_format, OF conjI, OF b] c
  have 2: "Stdenv 2 (exampleEnv unparsableFetch) emptyStore =
     Some (unlockedRef,
           \<lparr>lockfile =
              \<lparr>LockFileVersion = ''1'',
               Packages = [''github:NixOS/nixpkgs/nixpkgs-unstable'' \<mapsto>
                 \<lparr>Resolved = ''nixpkgs-unstable'', Source = [], AllowInsecure = False,
                  Systems = Map.empty\<rparr>]\<rparr>,
            calls = [''github:NixOS/nixpkgs/nixpkgs-unstable'']\<rparr>)"
    by (simp add: example_defs unlockedRef_def eval_nat_numeral)
  from Stdenv_falls_back [THEN conjunct2, THEN conjunct2, THEN conjunct1, rule_format, OF conjI,
      OF d e]
  have 3: "Stdenv 2 (exampleEnv exampleFetch) emptyStore =
     Some (lockedRef,
           \<lparr>lockfile =
              \<lparr>LockFileVersion = ''1'',
               Packages = [''github:NixOS/nixpkgs/nixpkgs-unstable'' \<mapsto> lockedStdenvPackage]\<rparr>,
            calls = [''github:NixOS/nixpkgs/nixpkgs-unstable'']\<rparr>)"
    by (simp add: eval_nat_numeral)
  from Stdenv_falls_back [THEN conjunct2, THEN conjunct2, THEN conjunct2, rule_format, OF f]
  have 4: "Stdenv 2 (exampleEnv silentFetch) emptyStore \<noteq> None"
    by (simp add: eval_nat_numeral)
  from 1 2 3 4 show ?thesis by simp
qed

section \<open>The time to live of a fetched plugin file\<close>

text \<open>
  Claim C8. Let \<open>ttlStr\<close> be the value of \<open>DEVBOX_X_GITHUB_PLUGIN_CACHE_TTL\<close>. When it is
  not empty and does not parse as a duration, \<open>FileContent\<close> returns an error and leaves
  the world as it is: neither the cache nor the network is reached; the error is the
  parser's when the URL could be built. When it is empty, \<open>FileContent\<close> is \<open>GetOrSet\<close> with
  a function that returns the time to live 24 hours; when it parses, with the parsed
  duration. In both cases the key is the content URL followed by \<open>ttlStr\<close>.
\<close>

theorem FileContent_ttl:
  "(\<forall>err. Getenv e ''DEVBOX_X_GITHUB_PLUGIN_CACHE_TTL'' \<noteq> [] \<and>
      ParseDuration e (Getenv e ''DEVBOX_X_GITHUB_PLUGIN_CACHE_TTL'') = Inl err \<longrightarrow>
      isl (fst (FileContent e p subpath w)) \<and> snd (FileContent e p subpath w) = w \<and>
      (\<forall>u. url e p subpath = Inr u \<longrightarrow> FileContent e p subpath w = (Inl err, w))) \<and>
   (\<forall>u. url e p subpath = Inr u \<and> Getenv e ''DEVBOX_X_GITHUB_PLUGIN_CACHE_TTL'' = [] \<longrightarrow>
      FileContent e p subpath w =
        GetOrSet e w (u @ Getenv e ''DEVBOX_X_GITHUB_PLUGIN_CACHE_TTL'')
          (fetchContent e p u (24 * Hour))) \<and>
   (\<forall>u ttl. url e p subpath = Inr u \<and> Getenv e ''DEVBOX_X_GITHUB_PLUGIN_CACHE_TTL'' \<noteq> [] \<and>
      ParseDuration e (Getenv e ''DEVBOX_X_GITHUB_PLUGIN_CACHE_TTL'') = Inr ttl \<longrightarrow>
      FileContent e p subpath w =
        GetOrSet e w (u @ Getenv e ''DEVBOX_X_GITHUB_PLUGIN_CACHE_TTL'')
          (fetchContent e p u ttl)) \<and>
   (\<forall>u ttl w0 body t w1. fetchContent e p u ttl w0 = (Inr (body, t), w1) \<longrightarrow> t = ttl) \<and>
   24 * Hour = 86400 * 1000000000"
  by (auto simp: FileContent_def Let_def fetchContent_def Hour_def
           split: sum.splits prod.splits if_splits)

text \<open>
  The theorem in the example world, with the clock at 1000: the override
  \<open>not-a-duration\<close> gives an error, no request and an empty cache; without an override the
  body is cached under the URL until 1000 plus 24 hours; with the override \<open>1h\<close> it is
  cached under the URL followed by \<open>1h\<close> until 1000 plus one hour. The function passed
  to \<open>GetOrSet\<close> returns the body with the time to live it was given.
\<close>

theorem FileContent_ttl_witness:
  "FileContent (examplePluginEnv ''not-a-duration'') examplePlugin ''plugin.json'' quietWorld =
     (Inl (Failure ''time: invalid duration not-a-duration''), quietWorld) \<and>
   FileContent (examplePluginEnv []) examplePlugin ''plugin.json'' quietWorld =
     (Inr ''{}'',
      \<lparr>cache = [''https://raw.githubusercontent.com/jetify-com/devbox-plugins/master/mongodb/plugin.json''
                 \<mapsto> (''{}'', 86400000001000)],
       clock = 1000,
       sent = [\<lparr>URL = ''https://raw.githubusercontent.com/jetify-com/devbox-plugins/master/mongodb/plugin.json'',
                Header = Map.empty\<rparr>],
       logged = []\<rparr>) \<and>
   FileContent (examplePluginEnv ''1h'') examplePlugin ''plugin.json'' quietWorld =
     (Inr ''{}'',
      \<lparr>cache = [''https://raw.githubusercontent.com/jetify-com/devbox-plugins/master/mongodb/plugin.json1h''
                 \<mapsto> (''{}'', 3600000001000)],
       clock = 1000,
       sent = [\<lparr>URL = ''https://raw.githubusercontent.com/jetify-com/devbox-plugins/master/mongodb/plugin.json'',
                Header = Map.empty\<rparr>],
       logged = []\<rparr>) \<and>
   fetchContent (examplePluginEnv []) examplePlugin
     ''https://raw.githubusercontent.com/jetify-com/devbox-plugins/master/mongodb/plugin.json''
     (24 * Hour) quietWorld =
     (Inr (''{}'', 86400000000000),
      quietWorld\<lparr>sent :=
        [\<lparr>URL = ''https://raw.githubusercontent.com/jetify-com/devbox-plugins/master/mongodb/plugin.json'',
          Header = Map.empty\<rparr>]\<rparr>)"
proof -
  note t = FileContent_ttl [where p = examplePlugin and subpath = "''plugin.json''" and w = quietWorld]
  have 1: "FileContent (examplePluginEnv ''not-a-duration'') examplePlugin ''plugin.json'' quietWorld =
     (Inl (Failure ''time: invalid duration not-a-duration''), quietWorld)"
    using t [where e = "examplePluginEnv ''not-a-duration''", THEN conjunct1, THEN spec,
        of "Failure ''time: invalid duration not-a-duration''"]
      example_url [of "''not-a-duration''"]
    by (simp add: examplePluginEnv_def)
  have 2: "FileContent (examplePluginEnv []) examplePlugin ''plugin.json'' quietWorld =
     (Inr ''{}'',
      \<lparr>cache = [''https://raw.githubusercontent.com/jetify-com/devbox-plugins/master/mongodb/plugin.json''
                 \<mapsto> (''{}'', 86400000001000)],
       clock = 1000,
       sent = [\<lparr>URL = ''https://raw.githubusercontent.com/jetify-com/devbox-plugins/master/mongodb/plugin.json'',
                Header = Map.empty\<rparr>],
       logged = []\<rparr>)"
    using t [where e = "examplePluginEnv []", THEN conjunct2, THEN conjunct1, THEN spec,
        of "''https://raw.githubusercontent.com/jetify-com/devbox-plugins/master/mongodb/plugin.json''"]
      example_url [of "[]"]
    by (simp add: examplePluginEnv_def exampleGetOrSet_def fetchContent_def request_def
          quietWorld_def Hour_def)
  have 3: "FileContent (examplePluginEnv ''1h'') examplePlugin ''plugin.json'' quietWorld =
     (Inr ''{}'',
      \<lparr>cache = [''https://raw.githubusercontent.com/jetify-com/devbox-plugins/master/mongodb/plugin.json1h''
                 \<mapsto> (''{}'', 3600000001000)],
       clock = 1000,
       sent = [\<lparr>URL = ''https://raw.githubusercontent.com/jetify-com/devbox-plugins/master/mongodb/plugin.json'',
                Header = Map.empty\<rparr>],
       logged = []\<rparr>)"
    using t [where e = "examplePluginEnv ''1h''", THEN conjunct2, THEN conjunct2, THEN conjunct1,
        THEN spec,
        of "''https://raw.githubusercontent.com/jetify-com/devbox-plugins/master/mongodb/plugin.json''",
        THEN spec, of Hour]
      example_url [of "''1h''"]
    by (simp add: examplePluginEnv_def exampleGetOrSet_def fetchContent_def request_def
          quietWorld_def Hour_def)
  have a: "fetchContent (examplePluginEnv []) examplePlugin
     ''https://raw.githubusercontent.com/jetify-com/devbox-plugins/master/mongodb/plugin.json''
     (24 * Hour) quietWorld =
     (Inr (''{}'', 86400000000000),
      quietWorld\<lparr>sent :=
        [\<lparr>URL = ''https://raw.githubusercontent.com/jetify-com/devbox-plugins/master/mongodb/plugin.json'',
          Header = Map.empty\<rparr>]\<rparr>)"
    by (simp add: fetchContent_def request_def examplePluginEnv_def quietWorld_def Hour_def)
  have 4: "(86400000000000 :: int) = 24 * Hour"
    using t [where e = "examplePluginEnv []", THEN conjunct2, THEN conjunct2, THEN conjunct2,
        THEN conjunct1, rule_format, OF a] .
  from 1 2 3 a 4 show ?thesis by simp
qed

section \<open>Redaction of the \<open>Authorization\<close> header\<close>

lemma redacted_unstructured:
  assumes "Header_Get (Header req) ''Authorization'' = h"
    and "length h < 10 \<or> CHR '' '' \<notin> set h"
  shows "getRedactedAuthHeader req = replicate (length h) (CHR ''*'')"
proof -
  have "length h < 10 \<or> length (SplitN h '' '' 2) < 2"
    using assms(2) Cut_char_None [of h "CHR '' ''"] by (auto simp: SplitN_2)
  then show ?thesis
    using assms(1) by (simp add: getRedactedAuthHeader_def Let_def Repeat_star)
qed

lemma redacted_structured:
  assumes "Header_Get (Header req) ''Authorization'' = authType @ '' '' @ token"
    and "CHR '' '' \<notin> set authType"
    and "10 \<le> length (authType @ '' '' @ token)"
  shows "getRedactedAuthHeader req =
           authType @ '' '' @
           (if length token < 10 then replicate (length token) (CHR ''*'')
            else take 4 token @ replicate (length token - 4) (CHR ''*''))"
proof -
  have "SplitN (authType @ '' '' @ token) '' '' 2 = [authType, token]"
    using assms(2) by (simp add: SplitN_2 Cut_char_append)
  then show ?thesis
    using assms(1,3) by (simp add: getRedactedAuthHeader_def Let_def Repeat_star)
qed

lemma masked_revealed:
  "length (filter (\<lambda>c. c \<noteq> CHR ''*'')
     (if length token < 10 then replicate (length token) (CHR ''*'')
      else take 4 token @ replicate (length token - 4) (CHR ''*''))) \<le> 4"
proof -
  have "length (filter (\<lambda>c. c \<noteq> CHR ''*'') (take 4 token)) \<le> length (take 4 token)"
    by (rule length_filter_le)
  then show ?thesis by simp
qed

text \<open>
  Claim C6. Let \<open>h\<close> be the value of the \<open>Authorization\<close> header. When \<open>h\<close> has fewer
  than 10 characters or no space, the result is \<open>*\<close> repeated to the length of \<open>h\<close>.
  Otherwise \<open>h\<close> is a scheme without a space, a space, and a token: the result is the
  scheme, the space, and the token masked, all of it when the token has fewer than 10
  characters, all but its first 4 characters otherwise. After the scheme and the space
  at most 4 characters of the result are not \<open>*\<close>.
\<close>

theorem getRedactedAuthHeader_masks:
  assumes "Header_Get (Header req) ''Authorization'' = h"
  shows "(length h < 10 \<or> CHR '' '' \<notin> set h \<longrightarrow>
            getRedactedAuthHeader req = replicate (length h) (CHR ''*'')) \<and>
         (\<forall>authType token.
            h = authType @ '' '' @ token \<and> CHR '' '' \<notin> set authType \<and> 10 \<le> length h \<longrightarrow>
              getRedactedAuthHeader req =
                authType @ '' '' @
                (if length token < 10 then replicate (length token) (CHR ''*'')
                 else take 4 token @ replicate (length token - 4) (CHR ''*'')) \<and>
              length (filter (\<lambda>c. c \<noteq> CHR ''*'')
                (drop (length authType + 1) (getRedactedAuthHeader req))) \<le> 4)"
proof (intro conjI allI impI)
  assume "length h < 10 \<or> CHR '' '' \<notin> set h"
  with assms show "getRedactedAuthHeader req = replicate (length h) (CHR ''*'')"
    by (rule redacted_unstructured)
next
  fix authType token
  assume a: "h = authType @ '' '' @ token \<and> CHR '' '' \<notin> set authType \<and> 10 \<le> length h"
  then have g: "Header_Get (Header req) ''Authorization'' = authType @ '' '' @ token"
    using assms by simp
  have eq: "getRedactedAuthHeader req =
           authType @ '' '' @
           (if length token < 10 then replicate (length token) (CHR ''*'')
            else take 4 token @ replicate (length token - 4) (CHR ''*''))"
    using a by (intro redacted_structured [OF g]) auto
  from eq show "getRedactedAuthHeader req =
           authType @ '' '' @
           (if length token < 10 then replicate (length token) (CHR ''*'')
            else take 4 token @ replicate (length token - 4) (CHR ''*''))" .
  have "drop (length authType + 1) (getRedactedAuthHeader req) =
          (if length token < 10 then replicate (length token) (CHR ''*'')
            else take 4 token @ replicate (length token - 4) (CHR ''*''))"
    by (subst eq) simp
  then show "length (filter (\<lambda>c. c \<noteq> CHR ''*'')
                (drop (length authType + 1) (getRedactedAuthHeader req))) \<le> 4"
    using masked_revealed [of token] by simp
qed

text \<open>
  The theorem at the headers \<open>Bearer abcdefghijkl\<close> (a token of 12 characters),
  \<open>Basic abc\<close> (9 characters in all) and \<open>Bearer abc12\<close> (a token of 5 characters).
\<close>

theorem getRedactedAuthHeader_masks_witness:
  "getRedactedAuthHeader
     (authRequest ''https://raw.githubusercontent.com/o/r/master/plugin.json''
        ''Bearer abcdefghijkl'') = ''Bearer abcd********'' \<and>
   getRedactedAuthHeader
     (authRequest ''https://raw.githubusercontent.com/o/r/master/plugin.json''
        ''Basic abc'') = ''*********'' \<and>
   getRedactedAuthHeader
     (authRequest ''https://raw.githubusercontent.com/o/r/master/plugin.json''
        ''Bearer abc12'') = ''Bearer *****''"
proof -
  note a = getRedactedAuthHeader_masks [OF Header_Get_authRequest
      [of "''https://raw.githubusercontent.com/o/r/master/plugin.json''" "''Bearer abcdefghijkl''"]]
  note b = getRedactedAuthHeader_masks [OF Header_Get_authRequest
      [of "''https://raw.githubusercontent.com/o/r/master/plugin.json''" "''Basic abc''"]]
  have 1: "getRedactedAuthHeader
     (authRequest ''https://raw.githubusercontent.com/o/r/master/plugin.json''
        ''Bearer abcdefghijkl'') = ''Bearer abcd********''"
    using a [THEN conjunct2, THEN spec, of "''Bearer''", THEN spec, of "''abcdefghijkl''"] by simp
  have 2: "getRedactedAuthHeader
     (authRequest ''https://raw.githubusercontent.com/o/r/master/plugin.json''
        ''Basic abc'') = ''*********''"
    using b [THEN conjunct1] by simp
  have 3: "getRedactedAuthHeader
     (authRequest ''https://raw.githubusercontent.com/o/r/master/plugin.json''
        ''Bearer abc12'') = ''Bearer *****''"
    using getRedactedAuthHeader_masks [OF Header_Get_authRequest
        [of "''https://raw.githubusercontent.com/o/r/master/plugin.json''" "''Bearer abc12''"],
        THEN conjunct2, THEN spec, of "''Bearer''", THEN spec, of "''abc12''"]
    by simp
  from 1 2 3 show ?thesis by simp
qed

text \<open>
  Claim C7, as amended. The header \<open>token ghp_1234567890abcd\<close> has a token of 18
  characters: the result keeps the scheme and the first 4 characters of the token and
  masks the other 14, so it ends in 14 \<open>*\<close>.
\<close>

theorem getRedactedAuthHeader_example:
  "getRedactedAuthHeader
     (authRequest ''https://raw.githubusercontent.com/o/r/master/plugin.json''
        ''token ghp_1234567890abcd'') = ''token ghp_**************''"
  by (simp add: getRedactedAuthHeader_def Header_Get_authRequest SplitN_2 Repeat_star Let_def)

text \<open>
  Claim C7, as stated, gives the result 10 \<open>*\<close>; the code does not return that string.
\<close>

theorem getRedactedAuthHeader_example_ten_stars:
  "getRedactedAuthHeader
     (authRequest ''https://raw.githubusercontent.com/o/r/master/plugin.json''
        ''token ghp_1234567890abcd'') \<noteq> ''token ghp_**********''"
  by (simp add: getRedactedAuthHeader_def Header_Get_authRequest SplitN_2 Repeat_star Let_def)

end
